theory Spec2Isabelle
  imports Complex_Main
begin

section \<open>Data model (lib/types)\<close>

text \<open>
  JavaScript numbers are modelled as \<open>real\<close>, token and character counts as \<open>nat\<close>,
  strings as \<open>string\<close> (ASCII texts). Objects whose key order is observable
  (the model registry, a quality-prior table) are association lists in insertion order.
\<close>

datatype Provider = OPENAI | ANTHROPIC | GOOGLE | HUGGINGFACE

datatype PromptType = CODE | SUMMARIZE | QA | CREATIVE | MATH_REASONING | UNKNOWN

datatype PriorityPreset = BALANCED | QUALITY | COST | LATENCY

record Weights =
  quality :: real
  cost :: real
  latency :: real

text \<open>
  A registry entry (\<open>BaseModelConfig\<close>). The fields \<open>supportsJson\<close>,
  \<open>supportsFunctionCalling\<close>, \<open>supportsVision\<close>, \<open>rpmLimit\<close>, \<open>concurrentLimit\<close> and
  \<open>notes\<close> are read by no function modelled here and are left out.
  \<open>isAvailable\<close> is an optional field: \<open>None\<close> is JavaScript's \<open>undefined\<close>.
\<close>

record BaseModelConfig =
  provider :: Provider
  modelName :: string
  contextWindowTokens :: nat
  priceInputPerMillion :: real
  priceOutputPerMillion :: real
  latencyP50Seconds :: real
  qualityPriorByType :: "(PromptType \<times> real) list"
  isAvailable :: "bool option"

record ModelConfig = BaseModelConfig +
  contextWindow :: nat
  inputCostPer1kTokens :: real
  outputCostPer1kTokens :: real
  latencyMs :: real
  capabilities :: "PromptType list"
  qualityPriors :: "PromptType \<Rightarrow> real"
  throughputTps :: int

record ScoredModel = ModelConfig +
  score :: real

type_synonym registry = "(string \<times> BaseModelConfig) list"

text \<open>\<open>DEFAULT_PRIORITY_WEIGHTS\<close> of lib/types/index.ts (exported, read by no function).\<close>

fun DEFAULT_PRIORITY_WEIGHTS :: "PriorityPreset \<Rightarrow> Weights" where
  "DEFAULT_PRIORITY_WEIGHTS BALANCED = \<lparr>quality = 0.45, cost = 0.30, latency = 0.25\<rparr>"
| "DEFAULT_PRIORITY_WEIGHTS QUALITY = \<lparr>quality = 0.65, cost = 0.15, latency = 0.20\<rparr>"
| "DEFAULT_PRIORITY_WEIGHTS COST = \<lparr>quality = 0.30, cost = 0.50, latency = 0.20\<rparr>"
| "DEFAULT_PRIORITY_WEIGHTS LATENCY = \<lparr>quality = 0.30, cost = 0.20, latency = 0.50\<rparr>"

text \<open>\<open>PRIORITY_WEIGHTS\<close> of lib/routing/routing-rules.ts, returned by \<open>getPriorityWeights\<close>.\<close>

fun PRIORITY_WEIGHTS :: "PriorityPreset \<Rightarrow> Weights" where
  "PRIORITY_WEIGHTS BALANCED = \<lparr>quality = 0.45, cost = 0.30, latency = 0.25\<rparr>"
| "PRIORITY_WEIGHTS QUALITY = \<lparr>quality = 0.70, cost = 0.20, latency = 0.10\<rparr>"
| "PRIORITY_WEIGHTS COST = \<lparr>quality = 0.20, cost = 0.70, latency = 0.10\<rparr>"
| "PRIORITY_WEIGHTS LATENCY = \<lparr>quality = 0.20, cost = 0.10, latency = 0.70\<rparr>"

definition getPriorityWeights :: "PriorityPreset \<Rightarrow> Weights" where
  "getPriorityWeights = PRIORITY_WEIGHTS"

section \<open>Model registry (lib/models/model-registry.ts)\<close>

definition allTypes :: "real \<Rightarrow> real \<Rightarrow> real \<Rightarrow> real \<Rightarrow> real \<Rightarrow> real \<Rightarrow> (PromptType \<times> real) list" where
  "allTypes c s q cr m u =
     [(CODE, c), (SUMMARIZE, s), (QA, q), (CREATIVE, cr), (MATH_REASONING, m), (UNKNOWN, u)]"

definition MODEL_REGISTRY :: registry where
  "MODEL_REGISTRY =
    [(''claude-3-7-sonnet-20250219'',
        \<lparr>provider = ANTHROPIC, modelName = ''claude-3-7-sonnet-20250219'',
         contextWindowTokens = 200000, priceInputPerMillion = 3.0,
         priceOutputPerMillion = 15.0, latencyP50Seconds = 1.34,
         qualityPriorByType = allTypes 0.98 0.95 0.96 0.98 0.95 0.92,
         isAvailable = Some True\<rparr>),
     (''gpt-5'',
        \<lparr>provider = OPENAI, modelName = ''gpt-5'',
         contextWindowTokens = 400000, priceInputPerMillion = 1.25,
         priceOutputPerMillion = 10.0, latencyP50Seconds = 7.52,
         qualityPriorByType = allTypes 0.99 0.96 0.99 0.97 0.99 0.94,
         isAvailable = Some True\<rparr>),
     (''gemini-1.5-flash'',
        \<lparr>provider = GOOGLE, modelName = ''gemini-1.5-flash'',
         contextWindowTokens = 1050000, priceInputPerMillion = 0.30,
         priceOutputPerMillion = 2.50, latencyP50Seconds = 0.45,
         qualityPriorByType = allTypes 0.85 0.88 0.86 0.84 0.82 0.85,
         isAvailable = Some True\<rparr>),
     (''gpt-4o-mini'',
        \<lparr>provider = OPENAI, modelName = ''gpt-4o-mini'',
         contextWindowTokens = 128000, priceInputPerMillion = 0.15,
         priceOutputPerMillion = 0.60, latencyP50Seconds = 0.46,
         qualityPriorByType = allTypes 0.82 0.80 0.81 0.79 0.75 0.85,
         isAvailable = Some True\<rparr>),
     (''gpt-oss-20b'',
        \<lparr>provider = HUGGINGFACE, modelName = ''openai/gpt-oss-20b:fireworks-ai'',
         contextWindowTokens = 128000, priceInputPerMillion = 0.0,
         priceOutputPerMillion = 0.0, latencyP50Seconds = 0.8,
         qualityPriorByType = allTypes 0.78 0.82 0.80 0.75 0.70 0.85,
         isAvailable = Some True\<rparr>)]"

text \<open>JavaScript's \<open>x || d\<close> on an optional number: \<open>undefined\<close> and \<open>0\<close> are falsy.\<close>

definition orDefault :: "real option \<Rightarrow> real \<Rightarrow> real" where
  "orDefault x d = (case x of None \<Rightarrow> d | Some v \<Rightarrow> if v = 0 then d else v)"

definition computeDerivedProperties :: "BaseModelConfig \<Rightarrow> ModelConfig" where
  "computeDerivedProperties model =
     BaseModelConfig.extend
       (model\<lparr>isAvailable := Some (case isAvailable model of None \<Rightarrow> True | Some b \<Rightarrow> b)\<rparr>)
       (ModelConfig.fields
          (contextWindowTokens model)
          (priceInputPerMillion model / 1000)
          (priceOutputPerMillion model / 1000)
          (latencyP50Seconds model * 1000)
          (map fst (qualityPriorByType model))
          (\<lambda>t. orDefault (map_of (qualityPriorByType model) t) 0.5)
          (\<lfloor>1000 / latencyP50Seconds model + 1 / 2\<rfloor>))"

definition getModelByName :: "registry \<Rightarrow> string \<Rightarrow> ModelConfig option" where
  "getModelByName reg name = map_option computeDerivedProperties (map_of reg name)"

text \<open>
  \<open>updateModelAvailability\<close>: the flag of the entry under key \<open>name\<close> is overwritten when the
  key exists; otherwise only a message is printed. The copy written to \<open>localStorage\<close> or to
  the global cache is read by nothing and is left out.
\<close>

definition updateModelAvailability :: "string \<Rightarrow> bool \<Rightarrow> registry \<Rightarrow> registry" where
  "updateModelAvailability name flag reg =
     (case map_of reg name of
        Some _ \<Rightarrow> map (\<lambda>(k, c). if k = name then (k, c\<lparr>isAvailable := Some flag\<rparr>) else (k, c)) reg
      | None \<Rightarrow> reg)"

definition resetAllModelAvailability :: "registry \<Rightarrow> registry" where
  "resetAllModelAvailability reg = map (\<lambda>(k, c). (k, c\<lparr>isAvailable := Some True\<rparr>)) reg"

section \<open>Routing engine (lib/routing/routing-engine.ts)\<close>

text \<open>A thrown JavaScript value: an \<open>Error\<close> object with its message, a string, or anything else.\<close>

datatype Thrown = JsError string | ThrownString string | ThrownOther

record RoutingRequest =
  prompt :: string
  promptType :: "PromptType option"
  priorityPreset :: PriorityPreset

record Alternative =
  alt_modelName :: string
  alt_score :: real
  alt_provider :: Provider
  qualityScore :: real
  costPer1kTokens :: real
  alt_latencyMs :: real

text \<open>
  The decision record. The two explanation strings (\<open>reasoning\<close>, and \<open>reason\<close> of an
  alternative) are formatted texts that no function reads back; they are left out.
\<close>

record RoutingDecision =
  selectedModel :: string
  rd_provider :: Provider
  rd_promptType :: PromptType
  fallbackModel :: "string option"
  confidence :: real
  estimatedCost :: real
  estimatedLatency :: real
  rd_score :: real
  priorityWeights :: Weights
  alternatives :: "Alternative list"

fun promptTypeString :: "PromptType \<Rightarrow> string" where
  "promptTypeString CODE = ''code''"
| "promptTypeString SUMMARIZE = ''summarize''"
| "promptTypeString QA = ''qa''"
| "promptTypeString CREATIVE = ''creative''"
| "promptTypeString MATH_REASONING = ''math_reasoning''"
| "promptTypeString UNKNOWN = ''unknown''"

text \<open>\<open>String.prototype.includes\<close>: the needle occurs as a contiguous substring.\<close>

fun startsWith :: "string \<Rightarrow> string \<Rightarrow> bool" where
  "startsWith s [] = True"
| "startsWith [] (k # ks) = False"
| "startsWith (c # cs) (k # ks) = (c = k \<and> startsWith cs ks)"

fun str_includes :: "string \<Rightarrow> string \<Rightarrow> bool" where
  "str_includes [] needle = (needle = [])"
| "str_includes (c # cs) needle = (startsWith (c # cs) needle \<or> str_includes cs needle)"

text \<open>
  \<open>Math.max(...xs)\<close> and \<open>Math.min(...xs)\<close>; every call site passes a non-empty list
  (the engine scores only after it has checked that a candidate exists).
\<close>

fun maxOf :: "real list \<Rightarrow> real" where
  "maxOf [] = 0"
| "maxOf (x # xs) = fold max xs x"

fun minOf :: "real list \<Rightarrow> real" where
  "minOf [] = 0"
| "minOf (x # xs) = fold min xs x"

definition estimateTokens :: "string \<Rightarrow> nat" where
  "estimateTokens p = (length p + 3) div 4"

definition getAvailableModels :: "registry \<Rightarrow> PromptType \<Rightarrow> nat \<Rightarrow> ModelConfig list" where
  "getAvailableModels reg pt estimatedTokens =
     filter (\<lambda>config. pt \<in> set (capabilities config)
                \<and> contextWindow config \<ge> estimatedTokens
                \<and> isAvailable config \<noteq> Some False)
       (List.map_filter (\<lambda>(name, _). getModelByName reg name) reg)"

definition isPremium :: "string \<Rightarrow> bool" where
  "isPremium name = (str_includes name ''claude'' \<or> str_includes name ''gpt-5'')"

text \<open>
  The score of one candidate, as the body of the \<open>map\<close> in \<open>scoreModels\<close> computes it.
  \<open>Math.pow\<close>, \<open>Math.log\<close> and \<open>Math.sqrt\<close> are \<open>powr\<close>, \<open>ln\<close> and \<open>sqrt\<close> on the reals.
\<close>

definition modelScore :: "Weights \<Rightarrow> ModelConfig list \<Rightarrow> PromptType \<Rightarrow> nat \<Rightarrow> ModelConfig \<Rightarrow> real" where
  "modelScore weights models pt estimatedTokens model =
    (let qualityScore = (if qualityPriors model pt = 0 then 0.5 else qualityPriors model pt);
         effectiveQualityScore =
           (if quality weights > 0.5
            then qualityScore powr 0.3 + (if qualityScore > 0.9 then 0.1 else 0)
            else qualityScore);
         qualityContribution = effectiveQualityScore * quality weights;
         costs = map inputCostPer1kTokens models;
         maxCost = maxOf costs;
         minCost = minOf costs;
         costScore =
           (if maxCost > 0 then
              (if cost weights > 0.4 then 1 - inputCostPer1kTokens model / maxCost
               else if inputCostPer1kTokens model = 0 then 0.6
               else
                 (let normalizedCost = (inputCostPer1kTokens model - minCost) / (maxCost - minCost);
                      logScore = 1 - ln (1 + normalizedCost * 2) / ln 3
                  in if quality weights > 0.6
                     then (if isPremium (modelName model) then max logScore 0.6 else max logScore 0.4)
                     else logScore))
            else 0.5);
         costContribution = costScore * cost weights;
         maxLatency = maxOf (map latencyMs models);
         latencyScore0 = 1 - latencyMs model / maxLatency;
         latencyScore =
           (if quality weights > 0.6 \<and> isPremium (modelName model)
            then sqrt latencyScore0 else latencyScore0);
         latencyContribution = latencyScore * latency weights;
         contextBonus =
           (if estimatedTokens > 1000
            then min 0.1 ((real (contextWindow model) - real estimatedTokens) / 10000)
            else 0);
         maxThroughput = maxOf (map (\<lambda>m. real_of_int (throughputTps m)) models);
         throughputScore = (real_of_int (throughputTps model) / maxThroughput) * 0.05
     in qualityContribution + costContribution + latencyContribution + contextBonus + throughputScore)"

text \<open>\<open>Array.prototype.sort\<close> is stable; the comparator \<open>b.score - a.score\<close> sorts descending.\<close>

definition scoreModels :: "ModelConfig list \<Rightarrow> PriorityPreset \<Rightarrow> PromptType \<Rightarrow> nat \<Rightarrow> ScoredModel list" where
  "scoreModels models preset pt estimatedTokens =
     sort_key (\<lambda>m. - score m)
       (map (\<lambda>model. ModelConfig.extend model
               (ScoredModel.fields (modelScore (getPriorityWeights preset) models pt estimatedTokens model)))
          models)"

definition calculateConfidence :: "ScoredModel \<Rightarrow> ScoredModel list \<Rightarrow> real" where
  "calculateConfidence selected scoredModels =
     (if length scoredModels = 1 then 1.0
      else
        (let selectedScore = score selected;
             secondBestScore = (case scoredModels of _ # m # _ \<Rightarrow> score m | _ \<Rightarrow> 0)
         in if secondBestScore = 0 then 1.0
            else min 1.0 (0.5 + ((selectedScore - secondBestScore) / max selectedScore secondBestScore) * 0.5)))"

definition estimateCost :: "ScoredModel \<Rightarrow> nat \<Rightarrow> real" where
  "estimateCost model estimatedTokens =
     (real estimatedTokens / 1000) * inputCostPer1kTokens model
     + (real estimatedTokens * 0.3 / 1000) * outputCostPer1kTokens model"

definition smartAlternatives :: "ScoredModel list \<Rightarrow> PromptType \<Rightarrow> Alternative list" where
  "smartAlternatives scoredModels pt =
     map (\<lambda>model. \<lparr>alt_modelName = modelName model, alt_score = score model,
                    alt_provider = provider model, qualityScore = qualityPriors model pt,
                    costPer1kTokens = inputCostPer1kTokens model, alt_latencyMs = latencyMs model\<rparr>)
       (take 4 (filter (\<lambda>model. isAvailable model \<noteq> Some False) (drop 1 scoredModels)))"

text \<open>
  \<open>routeRequest\<close>. Its two \<open>throw\<close>s are the \<open>Inl\<close> results. The request counters of
  \<open>updateMetrics\<close> and the unused rule table are not part of the decision and are left out.
\<close>

definition routeRequest :: "registry \<Rightarrow> RoutingRequest \<Rightarrow> Thrown + RoutingDecision" where
  "routeRequest reg request =
     (case promptType request of
        None \<Rightarrow> Inl (JsError ''Prompt type is required for routing'')
      | Some pt \<Rightarrow>
         (let estimatedTokens = estimateTokens (prompt request);
              availableModels = getAvailableModels reg pt estimatedTokens
          in case scoreModels availableModels (priorityPreset request) pt estimatedTokens of
               [] \<Rightarrow> Inl (JsError (''No available models for prompt type: '' @ promptTypeString pt))
             | selected # rest \<Rightarrow>
                 Inr \<lparr>selectedModel = modelName selected,
                      rd_provider = provider selected,
                      rd_promptType = pt,
                      fallbackModel =
                        map_option modelName
                          (find (\<lambda>model. modelName model \<noteq> modelName selected
                                          \<and> isAvailable model \<noteq> Some False) (selected # rest)),
                      confidence = calculateConfidence selected (selected # rest),
                      estimatedCost = estimateCost selected estimatedTokens,
                      estimatedLatency = latencyMs selected,
                      rd_score = score selected,
                      priorityWeights = getPriorityWeights (priorityPreset request),
                      alternatives = smartAlternatives (selected # rest) pt\<rparr>))"

definition markModelUnavailable :: "string \<Rightarrow> registry \<Rightarrow> registry" where
  "markModelUnavailable name reg = updateModelAvailability name False reg"

text \<open>
  \<open>calculateCostSavings\<close> looks every entry up again by its \<open>modelName\<close> field; an entry
  whose key differs from that field is not found and drops out of the comparison.
\<close>

definition calculateCostSavings :: "registry \<Rightarrow> real \<Rightarrow> PromptType \<Rightarrow> real" where
  "calculateCostSavings reg actualCost pt =
     (case sort_key (\<lambda>m. - inputCostPer1kTokens m)
             (filter (\<lambda>model. pt \<in> set (capabilities model))
                (List.map_filter (\<lambda>(_, baseConfig). getModelByName reg (modelName baseConfig)) reg)) of
        [] \<Rightarrow> 0
      | mostExpensiveModel # _ \<Rightarrow>
          max 0 ((1000 / 1000) * inputCostPer1kTokens mostExpensiveModel - actualCost))"

section \<open>Heuristic classifier (lib/classification/heuristic-classifier.ts)\<close>

text \<open>\<open>PROMPT_TYPE_MAPPING\<close>: keywords and \<open>estimatedOutputTokens\<close> per prompt type.\<close>

fun keywordsOf :: "PromptType \<Rightarrow> string list" where
  "keywordsOf CODE = [''write'', ''code'', ''function'', ''class'', ''algorithm'', ''program'', ''script'']"
| "keywordsOf SUMMARIZE = [''summarize'', ''summary'', ''brief'', ''overview'', ''tl;dr'', ''key points'']"
| "keywordsOf QA = [''what is'', ''how to'', ''explain'', ''why'', ''when'', ''where'', ''question'',
     ''hello'', ''hi'', ''how are you'', ''how do you do'', ''greeting'', ''conversation'']"
| "keywordsOf CREATIVE = [''write'', ''story'', ''poem'', ''creative'', ''imagine'', ''describe'', ''narrative'']"
| "keywordsOf MATH_REASONING = [''calculate'', ''solve'', ''equation'', ''mathematical'', ''math'',
     ''algebra'', ''geometry'', ''calculus'', ''statistics'', ''probability'', ''proof'', ''theorem'',
     ''formula'', ''cos'', ''sin'', ''tan'', ''log'', ''ln'', ''derivative'', ''integral'', ''matrix'',
     ''vector'', ''sqrt'', ''exp'', ''pi'', ''='', ''+'', ''-'', ''*'', ''/'', ''^'', ''x'', ''y'', ''z'']"
| "keywordsOf UNKNOWN = []"

fun estimatedOutputTokens :: "PromptType \<Rightarrow> nat" where
  "estimatedOutputTokens CODE = 500"
| "estimatedOutputTokens SUMMARIZE = 300"
| "estimatedOutputTokens QA = 200"
| "estimatedOutputTokens CREATIVE = 400"
| "estimatedOutputTokens MATH_REASONING = 600"
| "estimatedOutputTokens UNKNOWN = 300"

text \<open>The key order of \<open>PROMPT_TYPE_MAPPING\<close> and of the \<open>scores\<close> object.\<close>

definition promptTypeOrder :: "PromptType list" where
  "promptTypeOrder = [CODE, SUMMARIZE, QA, CREATIVE, MATH_REASONING, UNKNOWN]"

text \<open>\<open>toLowerCase\<close> on ASCII text: the letters A to Z are mapped, every other byte is kept.\<close>

definition toLowerChar :: "char \<Rightarrow> char" where
  "toLowerChar c =
     (case map_of (zip ''ABCDEFGHIJKLMNOPQRSTUVWXYZ'' ''abcdefghijklmnopqrstuvwxyz'') c of
        Some l \<Rightarrow> l
      | None \<Rightarrow> c)"

definition toLowerCase :: "string \<Rightarrow> string" where
  "toLowerCase s = map toLowerChar s"

definition calculateKeywordScore :: "string list \<Rightarrow> string list \<Rightarrow> real" where
  "calculateKeywordScore matchedKeywords allKeywords =
     (if length allKeywords = 0 then 0
      else
        (let matchRatio = real (length matchedKeywords) / real (length allKeywords);
             exactMatches = length (filter (\<lambda>keyword. keyword \<in> set allKeywords) matchedKeywords);
             exactMatchBonus = real exactMatches * 0.1
         in min 1.0 (matchRatio + exactMatchBonus)))"

record ScoreEntry =
  se_promptType :: PromptType
  se_score :: real
  matchedKeywords :: "string list"

definition matchedFor :: "string \<Rightarrow> PromptType \<Rightarrow> string list" where
  "matchedFor promptLower pt =
     filter (\<lambda>keyword. str_includes promptLower (toLowerCase keyword)) (keywordsOf pt)"

text \<open>
  The \<open>scores\<close> object after the \<open>forEach\<close> of \<open>classify\<close>: every type but \<open>UNKNOWN\<close>
  carries its keyword score, \<open>UNKNOWN\<close> keeps the initial entry.
\<close>

definition heuristicScores :: "string \<Rightarrow> ScoreEntry list" where
  "heuristicScores p =
     (let promptLower = toLowerCase p
      in map (\<lambda>pt. if pt = UNKNOWN
                    then \<lparr>se_promptType = pt, se_score = 0, matchedKeywords = []\<rparr>
                    else \<lparr>se_promptType = pt,
                          se_score = calculateKeywordScore (matchedFor promptLower pt) (keywordsOf pt),
                          matchedKeywords = matchedFor promptLower pt\<rparr>)
           promptTypeOrder)"

definition findBestMatch :: "ScoreEntry list \<Rightarrow> ScoreEntry" where
  "findBestMatch scores =
     fold (\<lambda>e bestMatch.
             if se_promptType e = UNKNOWN then bestMatch
             else if se_score e > se_score bestMatch then e else bestMatch)
       scores \<lparr>se_promptType = UNKNOWN, se_score = 0, matchedKeywords = []\<rparr>"

definition heuristicConfidence :: "ScoreEntry \<Rightarrow> ScoreEntry list \<Rightarrow> real" where
  "heuristicConfidence bestMatch scores =
     (let bestScore = se_score bestMatch
      in if bestScore = 0 then 0.1
         else
           (let otherScores =
                  map se_score
                    (filter (\<lambda>e. se_promptType e \<noteq> se_promptType bestMatch
                                 \<and> se_promptType e \<noteq> UNKNOWN) scores);
                maxOtherScore = maxOf (otherScores @ [0]);
                scoreDifference = bestScore - maxOtherScore;
                c1 = (if scoreDifference > 0.3 then bestScore + 0.2 else bestScore);
                c2 = (if scoreDifference > 0.5 then c1 + 0.1 else c1)
            in min 0.9 c2))"

record HeuristicResult =
  h_promptType :: PromptType
  h_confidence :: real
  h_matchedKeywords :: "string list"
  keywordCount :: nat
  totalKeywords :: nat

definition heuristicClassify :: "string \<Rightarrow> HeuristicResult" where
  "heuristicClassify p =
     (let scores = heuristicScores p;
          bestMatch = findBestMatch scores
      in \<lparr>h_promptType = se_promptType bestMatch,
          h_confidence = heuristicConfidence bestMatch scores,
          h_matchedKeywords = matchedKeywords bestMatch,
          keywordCount = length (matchedKeywords bestMatch),
          totalKeywords = length (keywordsOf (se_promptType bestMatch))\<rparr>)"

definition shouldUseHeuristic :: "real \<Rightarrow> bool" where
  "shouldUseHeuristic c = (c \<ge> 0.7)"

section \<open>Hybrid classifier (lib/classification/hybrid-classifier.ts)\<close>

text \<open>
  The process environment. \<open>getServerEnv\<close> throws in the browser and when the environment
  variables do not validate (\<open>Server None\<close>).
\<close>

record ServerEnv =
  CLASSIFICATION_CONFIDENCE_THRESHOLD :: real
  REQUEST_TIMEOUT_MS :: nat

datatype Runtime = Server "ServerEnv option" | Browser

definition getServerEnv :: "Runtime \<Rightarrow> Thrown + ServerEnv" where
  "getServerEnv rt =
     (case rt of
        Browser \<Rightarrow> Inl (JsError ''getServerEnv() can only be called on the server side'')
      | Server None \<Rightarrow> Inl (JsError ''Invalid environment variables'')
      | Server (Some e) \<Rightarrow> Inr e)"

definition getConfidenceThreshold :: "Runtime \<Rightarrow> Thrown + real" where
  "getConfidenceThreshold rt =
     (case rt of
        Browser \<Rightarrow> Inr 0.6
      | Server _ \<Rightarrow> map_sum id CLASSIFICATION_CONFIDENCE_THRESHOLD (getServerEnv rt))"

record ModelClassificationResult =
  m_promptType :: PromptType
  m_confidence :: real

record HybridClassificationResult =
  hy_promptType :: PromptType
  hy_confidence :: real
  hy_method :: string
  finalMethod :: string
  heuristicResult :: HeuristicResult
  modelResult :: "ModelClassificationResult option"

record Combined =
  c_promptType :: PromptType
  c_confidence :: real
  c_method :: string

definition combineResults :: "HeuristicResult \<Rightarrow> ModelClassificationResult \<Rightarrow> Combined" where
  "combineResults h m =
     (if h_promptType h = m_promptType m then
        (let maxConfidence = max (h_confidence h) (m_confidence m)
         in \<lparr>c_promptType = h_promptType h, c_confidence = maxConfidence,
             c_method = (if maxConfidence = h_confidence h then ''heuristic'' else ''model'')\<rparr>)
      else
        (let confidenceDifference = m_confidence m - h_confidence h
         in if confidenceDifference > 0.2 then
              \<lparr>c_promptType = m_promptType m, c_confidence = m_confidence m, c_method = ''model''\<rparr>
            else if confidenceDifference > 0 then
              \<lparr>c_promptType = m_promptType m, c_confidence = m_confidence m, c_method = ''model''\<rparr>
            else
              \<lparr>c_promptType = h_promptType h, c_confidence = h_confidence h, c_method = ''heuristic''\<rparr>))"

text \<open>
  \<open>HybridClassifier.classify\<close>. The model classifier (a backend call whose reply is parsed)
  is the parameter \<open>modelClassifier\<close>: \<open>Inl\<close> when it throws. Everything thrown inside the
  \<open>try\<close> block, the failure to read the threshold included, ends in the \<open>catch\<close> block.
\<close>

definition heuristicFallback :: "string \<Rightarrow> HybridClassificationResult" where
  "heuristicFallback p =
     (let h = heuristicClassify p
      in \<lparr>hy_promptType = h_promptType h,
          hy_confidence = max 0.1 (h_confidence h * 0.5),
          hy_method = ''heuristic'', finalMethod = ''heuristic_fallback'',
          heuristicResult = h, modelResult = None\<rparr>)"

definition classify ::
  "Runtime \<Rightarrow> (string \<Rightarrow> Thrown + ModelClassificationResult) \<Rightarrow> string \<Rightarrow> HybridClassificationResult" where
  "classify rt modelClassifier p =
     (case getConfidenceThreshold rt of
        Inl _ \<Rightarrow> heuristicFallback p
      | Inr _ \<Rightarrow>
          (let h = heuristicClassify p
           in if shouldUseHeuristic (h_confidence h) then
                \<lparr>hy_promptType = h_promptType h, hy_confidence = h_confidence h,
                 hy_method = ''heuristic'', finalMethod = ''heuristic_only'',
                 heuristicResult = h, modelResult = None\<rparr>
              else
                (case modelClassifier p of
                   Inl _ \<Rightarrow> heuristicFallback p
                 | Inr m \<Rightarrow>
                     (let final = combineResults h m
                      in \<lparr>hy_promptType = c_promptType final, hy_confidence = c_confidence final,
                          hy_method = c_method final, finalMethod = c_method final,
                          heuristicResult = h, modelResult = Some m\<rparr>))))"

section \<open>Backend clients (lib/models/client-factory.ts)\<close>

record Client =
  client_provider :: Provider
  client_modelName :: string

definition createClient :: "BaseModelConfig \<Rightarrow> Thrown + Client" where
  "createClient modelConfig =
     (if str_includes (modelName modelConfig) '':''
         \<and> str_includes (modelName modelConfig) ''fireworks-ai''
      then Inr \<lparr>client_provider = HUGGINGFACE, client_modelName = modelName modelConfig\<rparr>
      else
        (case provider modelConfig of
           OPENAI \<Rightarrow> Inr \<lparr>client_provider = OPENAI, client_modelName = modelName modelConfig\<rparr>
         | ANTHROPIC \<Rightarrow> Inr \<lparr>client_provider = ANTHROPIC, client_modelName = modelName modelConfig\<rparr>
         | GOOGLE \<Rightarrow> Inr \<lparr>client_provider = GOOGLE, client_modelName = modelName modelConfig\<rparr>
         | HUGGINGFACE \<Rightarrow> Inl (JsError ''Unknown provider: huggingface'')))"

text \<open>
  \<open>getClient\<close> resolves a name as a registry key first, then as the \<open>modelName\<close> of an
  entry. The cache only saves the construction: the entry a name resolves to never changes.
\<close>

definition getClient :: "registry \<Rightarrow> string \<Rightarrow> Thrown + Client" where
  "getClient reg name =
     (case map_of reg name of
        Some modelConfig \<Rightarrow> createClient modelConfig
      | None \<Rightarrow>
          (case find (\<lambda>(_, cfg). modelName cfg = name) reg of
             Some (_, modelConfig) \<Rightarrow> createClient modelConfig
           | None \<Rightarrow> Inl (JsError (''Unknown model: '' @ name))))"

section \<open>Router service (lib/routing/router-service.ts)\<close>

record GenerationOptions =
  maxTokens :: nat
  temperature :: real
  timeoutMs :: nat

text \<open>A log entry; \<open>id\<close> and \<open>timestamp\<close> (clock and random number) are left out.\<close>

record RequestLog =
  log_prompt :: string
  log_promptType :: PromptType
  log_selectedModel :: string
  log_provider :: Provider
  costUsd :: real
  log_latencyMs :: real
  log_qualityScore :: real
  classificationMethod :: string
  classificationConfidence :: real
  log_priorityPreset :: PriorityPreset
  userId :: "string option"
  sessionId :: "string option"
  log_error :: "string option"

record RouterResponse =
  response :: string
  modelUsed :: string
  rr_promptType :: PromptType
  rr_classificationConfidence :: real
  routingDecision :: RoutingDecision
  actualCost :: real
  actualLatency :: real
  costSavings :: real
  wasTruncated :: bool

text \<open>
  What one call of \<open>routePrompt\<close> meets outside the service: the process environment, the
  model classifier, the backends (\<open>generateResponse\<close> of the client with the given
  \<open>modelName\<close>; \<open>Inl\<close> is the value it throws, \<open>Inr\<close> the \<open>content\<close> of its reply) and
  the time that passes until the reply.
\<close>

record Env =
  runtime :: Runtime
  modelClassifier :: "string \<Rightarrow> Thrown + ModelClassificationResult"
  generateResponse :: "string \<Rightarrow> string \<Rightarrow> GenerationOptions \<Rightarrow> Thrown + string"
  elapsedMs :: real

text \<open>
  The mutable state: the registry (module level), the log buffer of the service, and, as a
  record of what happened, the list of backend invocations in order.
\<close>

record RouterState =
  registry :: registry
  requestLogs :: "RequestLog list"
  calls :: "(string \<times> string \<times> GenerationOptions) list"

definition maxLogs :: nat where
  "maxLogs = 1000"

definition logRequest :: "RequestLog \<Rightarrow> RequestLog list \<Rightarrow> RequestLog list" where
  "logRequest entry logs =
     (let pushed = logs @ [entry]
      in if length pushed > maxLogs then drop (length pushed - maxLogs) pushed else pushed)"

fun temperatures :: "PromptType \<Rightarrow> real option" where
  "temperatures CODE = Some 0.1"
| "temperatures SUMMARIZE = Some 0.3"
| "temperatures QA = Some 0.2"
| "temperatures CREATIVE = Some 0.8"
| "temperatures MATH_REASONING = Some 0.1"
| "temperatures UNKNOWN = Some 0.5"

definition getTemperatureForPromptType :: "PromptType \<Rightarrow> real" where
  "getTemperatureForPromptType pt = (case temperatures pt of Some t \<Rightarrow> t | None \<Rightarrow> 0.5)"

fun limits :: "PromptType \<Rightarrow> nat option" where
  "limits QA = Some 2000"
| "limits CREATIVE = Some 2500"
| "limits MATH_REASONING = Some 3000"
| "limits CODE = Some 2000"
| "limits SUMMARIZE = Some 1500"
| "limits UNKNOWN = Some 1500"

definition getMaxOutputTokens :: "PromptType \<Rightarrow> nat" where
  "getMaxOutputTokens pt =
     (case limits pt of Some n \<Rightarrow> n | None \<Rightarrow> max (estimatedOutputTokens pt * 2) 1500)"

definition getRequestTimeout :: "Runtime \<Rightarrow> nat" where
  "getRequestTimeout rt = (case getServerEnv rt of Inr e \<Rightarrow> REQUEST_TIMEOUT_MS e | Inl _ \<Rightarrow> 30000)"

definition calculateActualCost :: "registry \<Rightarrow> string \<Rightarrow> nat \<Rightarrow> nat \<Rightarrow> real" where
  "calculateActualCost reg name inputChars outputChars =
     (case map_of reg name of
        None \<Rightarrow> 0
      | Some modelConfig \<Rightarrow>
          (let inputTokens = (inputChars + 3) div 4;
               outputTokens = (outputChars + 3) div 4
           in (real inputTokens / 1000000) * priceInputPerMillion modelConfig
              + (real outputTokens / 1000000) * priceOutputPerMillion modelConfig))"

text \<open>
  \<open>s.lastIndexOf(c, fromIndex)\<close> for a single character: the greatest index not above
  \<open>fromIndex\<close> that holds \<open>c\<close>, or \<open>-1\<close>.
\<close>

definition lastIndexOf :: "string \<Rightarrow> char \<Rightarrow> nat \<Rightarrow> int" where
  "lastIndexOf s c fromIndex =
     (let pre = take (fromIndex + 1) s
      in if c \<in> set pre
         then int (length pre) - 1 - int (length (takeWhile (\<lambda>x. x \<noteq> c) (rev pre)))
         else - 1)"

text \<open>
  The truncation block, written out twice in the source (after the selected backend's reply
  and after the fallback's) with the same text.
\<close>

definition truncateResponse :: "string \<Rightarrow> string \<times> bool" where
  "truncateResponse finalResponse =
     (let maxResponseLength = 3000
      in if length finalResponse > maxResponseLength then
           (let truncationPoint = lastIndexOf finalResponse (CHR ''.'') maxResponseLength;
                fallbackPoint = lastIndexOf finalResponse (CHR 0x0A) maxResponseLength;
                cutPoint = (if truncationPoint > fallbackPoint then truncationPoint else fallbackPoint)
            in if real_of_int cutPoint > real maxResponseLength * 0.8
               then (take (nat (cutPoint + 1)) finalResponse @ ''...'', True)
               else (finalResponse, False))
         else (finalResponse, False))"

definition errorMessageOf :: "Thrown \<Rightarrow> string" where
  "errorMessageOf e =
     (case e of JsError m \<Rightarrow> m | ThrownString s \<Rightarrow> s | ThrownOther \<Rightarrow> ''Unknown error occurred'')"

definition routingFailed :: "string \<Rightarrow> Thrown" where
  "routingFailed errorMessage =
     JsError (''Routing failed: '' @ (if errorMessage = [] then ''Unknown routing error'' else errorMessage))"

definition fallbackOptions :: "PromptType \<Rightarrow> GenerationOptions" where
  "fallbackOptions pt = \<lparr>maxTokens = getMaxOutputTokens pt, temperature = 0.7, timeoutMs = 30000\<rparr>"

definition handleRoutingError ::
  "Env \<Rightarrow> RouterState \<Rightarrow> string \<Rightarrow> PriorityPreset \<Rightarrow> Thrown \<Rightarrow> string option \<Rightarrow> string option
     \<Rightarrow> PromptType \<Rightarrow> real \<Rightarrow> (Thrown + RouterResponse) \<times> RouterState" where
  "handleRoutingError env st p preset err uid sid classifiedPromptType classifiedConfidence =
     (let errorMessage = errorMessageOf err;
          conf = (if classifiedConfidence = 0 then 0.5 else classifiedConfidence)
      in case getClient (registry st) ''gpt-4o-mini'' of
           Inl _ \<Rightarrow> (Inl (routingFailed errorMessage), st)
         | Inr fallbackClient \<Rightarrow>
             (let opts = fallbackOptions classifiedPromptType;
                  st1 = st\<lparr>calls := calls st @ [(client_modelName fallbackClient, p, opts)]\<rparr>
              in case generateResponse env (client_modelName fallbackClient) p opts of
                   Inl _ \<Rightarrow> (Inl (routingFailed errorMessage), st1)
                 | Inr content \<Rightarrow>
                     (let actualLatency = elapsedMs env;
                          st2 = st1\<lparr>requestLogs :=
                                  logRequest
                                    \<lparr>log_prompt = p, log_promptType = classifiedPromptType,
                                     log_selectedModel = ''gpt-4o-mini'',
                                     log_provider = client_provider fallbackClient,
                                     costUsd = 0.00015, log_latencyMs = actualLatency,
                                     log_qualityScore = 0.5, classificationMethod = ''fallback'',
                                     classificationConfidence = conf, log_priorityPreset = preset,
                                     userId = uid, sessionId = sid, log_error = Some errorMessage\<rparr>
                                    (requestLogs st1)\<rparr>;
                          truncated = truncateResponse content
                      in (Inr \<lparr>response = fst truncated,
                               modelUsed = ''gpt-4o-mini (fallback)'',
                               rr_promptType = classifiedPromptType,
                               rr_classificationConfidence = conf,
                               routingDecision =
                                 \<lparr>selectedModel = ''gpt-4o-mini'',
                                  rd_provider = client_provider fallbackClient,
                                  rd_promptType = classifiedPromptType,
                                  fallbackModel = None, confidence = 0.5,
                                  estimatedCost = 0.00015, estimatedLatency = actualLatency,
                                  rd_score = 0.0,
                                  priorityWeights = \<lparr>quality = 0.3, cost = 0.5, latency = 0.2\<rparr>,
                                  alternatives = []\<rparr>,
                               actualCost = 0.00015, actualLatency = actualLatency,
                               costSavings = 0, wasTruncated = snd truncated\<rparr>, st2))))"

definition routePrompt ::
  "Env \<Rightarrow> RouterState \<Rightarrow> string \<Rightarrow> PriorityPreset \<Rightarrow> string option \<Rightarrow> string option
     \<Rightarrow> (Thrown + RouterResponse) \<times> RouterState" where
  "routePrompt env st p preset uid sid =
     (let classificationResult = classify (runtime env) (modelClassifier env) p;
          pt = hy_promptType classificationResult;
          classificationConfidence = hy_confidence classificationResult
      in case routeRequest (registry st) \<lparr>prompt = p, promptType = Some pt, priorityPreset = preset\<rparr> of
           Inl err \<Rightarrow> handleRoutingError env st p preset err uid sid pt classificationConfidence
         | Inr decision \<Rightarrow>
             (case getClient (registry st) (selectedModel decision) of
                Inl err \<Rightarrow> handleRoutingError env st p preset err uid sid pt classificationConfidence
              | Inr modelClient \<Rightarrow>
                  (let opts = \<lparr>maxTokens = getMaxOutputTokens pt,
                               temperature = getTemperatureForPromptType pt,
                               timeoutMs = getRequestTimeout (runtime env)\<rparr>;
                       st1 = st\<lparr>calls := calls st @ [(client_modelName modelClient, p, opts)]\<rparr>
                   in case generateResponse env (client_modelName modelClient) p opts of
                        Inl err \<Rightarrow>
                          handleRoutingError env
                            (st1\<lparr>registry := markModelUnavailable (selectedModel decision) (registry st1)\<rparr>)
                            p preset err uid sid pt classificationConfidence
                      | Inr content \<Rightarrow>
                          (let actualLatency = elapsedMs env;
                               actualCost = calculateActualCost (registry st1) (selectedModel decision)
                                              (length p) (length content);
                               costSavings = calculateCostSavings (registry st1) actualCost pt;
                               st2 = st1\<lparr>requestLogs :=
                                       logRequest
                                         \<lparr>log_prompt = p, log_promptType = pt,
                                          log_selectedModel = selectedModel decision,
                                          log_provider = client_provider modelClient,
                                          costUsd = actualCost, log_latencyMs = actualLatency,
                                          log_qualityScore = confidence decision,
                                          classificationMethod = hy_method classificationResult,
                                          classificationConfidence = classificationConfidence,
                                          log_priorityPreset = preset,
                                          userId = uid, sessionId = sid, log_error = None\<rparr>
                                         (requestLogs st1)\<rparr>;
                               truncated =
                                 truncateResponse
                                   (if content = [] then ''No response generated'' else content)
                           in (Inr \<lparr>response = fst truncated,
                                    modelUsed = selectedModel decision,
                                    rr_promptType = pt,
                                    rr_classificationConfidence = classificationConfidence,
                                    routingDecision = decision,
                                    actualCost = actualCost, actualLatency = actualLatency,
                                    costSavings = costSavings,
                                    wasTruncated = snd truncated\<rparr>, st2)))))"

section \<open>Definitions used by the statements\<close>

text \<open>The two operations that change the registry, and a history of them.\<close>

datatype RegistryOp = MarkUnavailable string | ResetAll

fun applyOp :: "RegistryOp \<Rightarrow> registry \<Rightarrow> registry" where
  "applyOp (MarkUnavailable name) reg = markModelUnavailable name reg"
| "applyOp ResetAll reg = resetAllModelAvailability reg"

definition applyOps :: "RegistryOp list \<Rightarrow> registry \<Rightarrow> registry" where
  "applyOps ops reg = fold applyOp ops reg"

text \<open>The registry of the source with the five availability flags set to given values.\<close>

definition withFlags :: "bool \<Rightarrow> bool \<Rightarrow> bool \<Rightarrow> bool \<Rightarrow> bool \<Rightarrow> registry" where
  "withFlags f1 f2 f3 f4 f5 =
     map (\<lambda>(f, (k, c)). (k, c\<lparr>isAvailable := Some f\<rparr>)) (zip [f1, f2, f3, f4, f5] MODEL_REGISTRY)"

definition sampleLog :: RequestLog where
  "sampleLog =
     \<lparr>log_prompt = ''Hello, how are you?'', log_promptType = QA,
      log_selectedModel = ''gpt-4o-mini'', log_provider = OPENAI, costUsd = 0.00015,
      log_latencyMs = 460, log_qualityScore = 0.5, classificationMethod = ''heuristic'',
      classificationConfidence = 0.9, log_priorityPreset = BALANCED,
      userId = None, sessionId = None, log_error = None\<rparr>"

definition entryOf :: "string \<Rightarrow> bool \<Rightarrow> BaseModelConfig" where
  "entryOf k f =
     (case map_of MODEL_REGISTRY k of
        Some c \<Rightarrow> c\<lparr>isAvailable := Some f\<rparr>
      | None \<Rightarrow> \<lparr>provider = OPENAI, modelName = k, contextWindowTokens = 0,
                 priceInputPerMillion = 0, priceOutputPerMillion = 0, latencyP50Seconds = 0,
                 qualityPriorByType = [], isAvailable = Some f\<rparr>)"

definition eligible :: "nat \<Rightarrow> BaseModelConfig \<Rightarrow> bool" where
  "eligible n c = (n \<le> contextWindowTokens c \<and> isAvailable c \<noteq> Some False)"

definition wireName :: "string \<Rightarrow> string" where
  "wireName k = (case map_of MODEL_REGISTRY k of Some c \<Rightarrow> modelName c | None \<Rightarrow> k)"

definition primaryOptions :: "Runtime \<Rightarrow> PromptType \<Rightarrow> GenerationOptions" where
  "primaryOptions rt pt = \<lparr>maxTokens = getMaxOutputTokens pt,
      temperature = getTemperatureForPromptType pt, timeoutMs = getRequestTimeout rt\<rparr>"

definition classifiedType :: "Env \<Rightarrow> string \<Rightarrow> PromptType" where
  "classifiedType env p = hy_promptType (classify (runtime env) (modelClassifier env) p)"

definition requestOf :: "Env \<Rightarrow> string \<Rightarrow> PriorityPreset \<Rightarrow> RoutingRequest" where
  "requestOf env p preset = \<lparr>prompt = p, promptType = Some (classifiedType env p), priorityPreset = preset\<rparr>"

definition cand :: "string \<Rightarrow> ModelConfig" where
  "cand k = computeDerivedProperties (entryOf k True)"

definition freshCandidates :: "ModelConfig list" where
  "freshCandidates = [cand ''claude-3-7-sonnet-20250219'', cand ''gpt-5'',
        cand ''gemini-1.5-flash'', cand ''gpt-4o-mini'', cand ''gpt-oss-20b'']"

definition prompt0 :: string where
  "prompt0 = ''Summarize the key points of machine learning''"

text \<open>Concrete environments and the initial state of a fresh service.\<close>

definition serverEnv0 :: ServerEnv where
  "serverEnv0 = \<lparr>CLASSIFICATION_CONFIDENCE_THRESHOLD = 0.6, REQUEST_TIMEOUT_MS = 30000\<rparr>"

definition st0 :: RouterState where
  "st0 = \<lparr>registry = MODEL_REGISTRY, requestLogs = [], calls = []\<rparr>"

definition envDown :: Env where
  "envDown =
     \<lparr>runtime = Server (Some serverEnv0),
      modelClassifier = (\<lambda>p. Inl (JsError ''Classification failed: Request timed out'')),
      generateResponse = (\<lambda>name p opts. Inl (JsError ''Request timed out'')),
      elapsedMs = 30000\<rparr>"

definition envOssDown :: Env where
  "envOssDown =
     \<lparr>runtime = Server (Some serverEnv0),
      modelClassifier = (\<lambda>p. Inr \<lparr>m_promptType = SUMMARIZE, m_confidence = 0.9\<rparr>),
      generateResponse =
        (\<lambda>name p opts. if name = ''openai/gpt-oss-20b:fireworks-ai''
                        then Inl (JsError ''Hugging Face model unavailable'')
                        else Inr ''Machine learning finds patterns in data.''),
      elapsedMs = 1200\<rparr>"

definition envEmpty :: Env where
  "envEmpty =
     \<lparr>runtime = Server (Some serverEnv0),
      modelClassifier = (\<lambda>p. Inr \<lparr>m_promptType = QA, m_confidence = 0.9\<rparr>),
      generateResponse = (\<lambda>name p opts. Inr []),
      elapsedMs = 800\<rparr>"

text \<open>A reply of 3101 characters whose last full stop is at index 2500.\<close>

definition longText :: string where
  "longText = replicate 2500 (CHR ''a'') @ ''.'' @ replicate 600 (CHR ''b'')"

text \<open>
  Follows the spec's words (4.5.2): the input price, taken per 1000 tokens, of the model with
  the highest input price among the models whose quality-prior table contains the category.
\<close>

definition spec_maxCost :: "registry \<Rightarrow> PromptType \<Rightarrow> real" where
  "spec_maxCost reg pt =
     maxOf (map (\<lambda>(name, c). priceInputPerMillion c / 1000)
              (filter (\<lambda>(name, c). pt \<in> fst ` set (qualityPriorByType c)) reg))"

text \<open>
  Follows the spec's words (4.1): the raw score of a category is
  \<open>min(1, matched / total + 0.1 * matched)\<close>, where \<open>matched\<close> counts the category's keywords
  that occur in the lower-cased prompt, and 0 for an empty keyword list.
\<close>

definition spec_rawScore :: "string \<Rightarrow> PromptType \<Rightarrow> real" where
  "spec_rawScore p pt =
     (let matched = length (filter (\<lambda>kw. str_includes (toLowerCase p) (toLowerCase kw)) (keywordsOf pt));
          total = length (keywordsOf pt)
      in if total = 0 then 0 else min 1 (real matched / real total + 0.1 * real matched))"

text \<open>The categories other than \<open>UNKNOWN\<close>, in the order of the enumeration.\<close>

definition categories :: "PromptType list" where
  "categories = [CODE, SUMMARIZE, QA, CREATIVE, MATH_REASONING]"

definition promptCode :: string where
  "promptCode = ''write code function class algorithm''"

definition envNoConfig :: Env where
  "envNoConfig =
     \<lparr>runtime = Server None,
      modelClassifier = (\<lambda>p. Inr \<lparr>m_promptType = CODE, m_confidence = 0.9\<rparr>),
      generateResponse = (\<lambda>name p opts. Inr ''ok.''),
      elapsedMs = 800\<rparr>"

definition bestStep :: "ScoreEntry \<Rightarrow> ScoreEntry \<Rightarrow> ScoreEntry" where
  "bestStep e bestMatch =
     (if se_promptType e = UNKNOWN then bestMatch
      else if se_score e > se_score bestMatch then e else bestMatch)"

section \<open>The analytics log buffer\<close>

lemma length_logRequest: "length logs \<le> maxLogs \<Longrightarrow> length (logRequest e logs) \<le> maxLogs"
  by (simp add: logRequest_def Let_def maxLogs_def)

lemma fold_logRequest:
  "length logs \<le> maxLogs \<Longrightarrow>
   fold logRequest es logs = drop (length logs + length es - maxLogs) (logs @ es)"
proof (induction es arbitrary: logs)
  case Nil
  then show ?case by simp
next
  case (Cons e es)
  have len: "length (logRequest e logs) \<le> maxLogs"
    using Cons.prems by (rule length_logRequest)
  have "fold logRequest (e # es) logs = fold logRequest es (logRequest e logs)" by simp
  also have "\<dots> = drop (length (logRequest e logs) + length es - maxLogs) (logRequest e logs @ es)"
    using Cons.IH [OF len] .
  also have "\<dots> = drop (length logs + length (e # es) - maxLogs) (logs @ e # es)"
  proof (cases "length logs + 1 > maxLogs")
    case True
    with Cons.prems have eq: "length logs = maxLogs" by simp
    then show ?thesis by (simp add: logRequest_def Let_def drop_Suc maxLogs_def)
  next
    case False
    then show ?thesis by (simp add: logRequest_def Let_def)
  qed
  finally show ?case .
qed

text \<open>
  Claim C6. Starting from a buffer of at most 1000 entries, after any sequence of
  \<open>logRequest\<close> calls the buffer holds at most 1000 entries, and it is exactly the last
  1000 (or fewer) of everything logged, in insertion order: whenever an append exceeds the
  capacity the oldest entry is the one dropped. After 1001 entries logged into an empty
  buffer the first one is gone: the buffer is the other 1000.
\<close>

theorem C6_log_buffer_bounded_fifo:
  assumes "length logs \<le> 1000"
  shows "length (fold logRequest es logs) \<le> 1000
       \<and> fold logRequest es logs = drop (length logs + length es - 1000) (logs @ es)
       \<and> (length es = 1001 \<longrightarrow> fold logRequest es [] = tl es)"
proof -
  have a: "fold logRequest es logs = drop (length logs + length es - 1000) (logs @ es)"
    using fold_logRequest [of logs es] assms by (simp add: maxLogs_def)
  have b: "length (fold logRequest es logs) \<le> 1000"
    using assms by (simp add: a)
  have c: "length es = 1001 \<longrightarrow> fold logRequest es [] = tl es"
    using fold_logRequest [of "[]" es] by (simp add: maxLogs_def drop_Suc)
  from a b c show ?thesis by blast
qed

theorem C6_log_buffer_witness:
  "length ([] :: RequestLog list) \<le> 1000
   \<and> length (replicate 1001 sampleLog) = 1001
   \<and> length (fold logRequest (replicate 1001 sampleLog) []) \<le> 1000
   \<and> fold logRequest (replicate 1001 sampleLog) [] = tl (replicate 1001 sampleLog)"
  using C6_log_buffer_bounded_fifo [of "[]" "replicate 1001 sampleLog"] by simp

lemma modelName_computeDerived [simp]: "modelName (computeDerivedProperties c) = modelName c"
  by (simp add: computeDerivedProperties_def BaseModelConfig.extend_def)

lemma isAvailable_computeDerived:
  "isAvailable (computeDerivedProperties c) = Some (case isAvailable c of None \<Rightarrow> True | Some b \<Rightarrow> b)"
  by (simp add: computeDerivedProperties_def BaseModelConfig.extend_def)

lemma set_scoreModels:
  "s \<in> set (scoreModels models preset pt n) \<Longrightarrow> \<exists>m \<in> set models. modelName s = modelName m"
  by (auto simp: scoreModels_def ModelConfig.extend_def)

lemma withFlags_entries:
  "withFlags f1 f2 f3 f4 f5 =
     [(''claude-3-7-sonnet-20250219'', entryOf ''claude-3-7-sonnet-20250219'' f1),
      (''gpt-5'', entryOf ''gpt-5'' f2),
      (''gemini-1.5-flash'', entryOf ''gemini-1.5-flash'' f3),
      (''gpt-4o-mini'', entryOf ''gpt-4o-mini'' f4),
      (''gpt-oss-20b'', entryOf ''gpt-oss-20b'' f5)]"
  by (simp add: withFlags_def MODEL_REGISTRY_def entryOf_def)

lemma derived_all:
  "List.map_filter (\<lambda>(name, _). getModelByName (withFlags f1 f2 f3 f4 f5) name) (withFlags f1 f2 f3 f4 f5)
   = map computeDerivedProperties
       [entryOf ''claude-3-7-sonnet-20250219'' f1, entryOf ''gpt-5'' f2,
        entryOf ''gemini-1.5-flash'' f3, entryOf ''gpt-4o-mini'' f4, entryOf ''gpt-oss-20b'' f5]"
  by (simp add: withFlags_entries List.map_filter_def getModelByName_def)

lemma allTypes_total: "pt \<in> fst ` set (allTypes a b c d e f)"
  by (cases pt) (simp_all add: allTypes_def)

lemma capabilities_computeDerived: "capabilities (computeDerivedProperties c) = map fst (qualityPriorByType c)"
  by (simp add: computeDerivedProperties_def BaseModelConfig.extend_def ModelConfig.fields_def)

lemma contextWindow_computeDerived: "contextWindow (computeDerivedProperties c) = contextWindowTokens c"
  by (simp add: computeDerivedProperties_def BaseModelConfig.extend_def ModelConfig.fields_def)

lemma entry_caps:
  "pt \<in> fst ` set (qualityPriorByType (entryOf ''claude-3-7-sonnet-20250219'' f))"
  "pt \<in> fst ` set (qualityPriorByType (entryOf ''gpt-5'' f))"
  "pt \<in> fst ` set (qualityPriorByType (entryOf ''gemini-1.5-flash'' f))"
  "pt \<in> fst ` set (qualityPriorByType (entryOf ''gpt-4o-mini'' f))"
  "pt \<in> fst ` set (qualityPriorByType (entryOf ''gpt-oss-20b'' f))"
  by (simp_all add: entryOf_def MODEL_REGISTRY_def allTypes_total)

lemma entry_avail:
  "isAvailable (entryOf ''claude-3-7-sonnet-20250219'' f) = Some f"
  "isAvailable (entryOf ''gpt-5'' f) = Some f"
  "isAvailable (entryOf ''gemini-1.5-flash'' f) = Some f"
  "isAvailable (entryOf ''gpt-4o-mini'' f) = Some f"
  "isAvailable (entryOf ''gpt-oss-20b'' f) = Some f"
  by (simp_all add: entryOf_def MODEL_REGISTRY_def)

lemma entry_names:
  "modelName (entryOf ''claude-3-7-sonnet-20250219'' f) = ''claude-3-7-sonnet-20250219''"
  "modelName (entryOf ''gpt-5'' f) = ''gpt-5''"
  "modelName (entryOf ''gemini-1.5-flash'' f) = ''gemini-1.5-flash''"
  "modelName (entryOf ''gpt-4o-mini'' f) = ''gpt-4o-mini''"
  "modelName (entryOf ''gpt-oss-20b'' f) = ''openai/gpt-oss-20b:fireworks-ai''"
  by (simp_all add: entryOf_def MODEL_REGISTRY_def)

lemma entry_windows:
  "contextWindowTokens (entryOf ''claude-3-7-sonnet-20250219'' f) = 200000"
  "contextWindowTokens (entryOf ''gpt-5'' f) = 400000"
  "contextWindowTokens (entryOf ''gemini-1.5-flash'' f) = 1050000"
  "contextWindowTokens (entryOf ''gpt-4o-mini'' f) = 128000"
  "contextWindowTokens (entryOf ''gpt-oss-20b'' f) = 128000"
  by (simp_all add: entryOf_def MODEL_REGISTRY_def)

lemma candidate_pred:
  "pt \<in> fst ` set (qualityPriorByType c) \<Longrightarrow>
   (pt \<in> set (capabilities (computeDerivedProperties c))
     \<and> n \<le> contextWindow (computeDerivedProperties c)
     \<and> isAvailable (computeDerivedProperties c) \<noteq> Some False) = eligible n c"
  by (cases "isAvailable c")
     (auto simp: eligible_def capabilities_computeDerived contextWindow_computeDerived
        isAvailable_computeDerived)

lemma candidates_explicit:
  "getAvailableModels (withFlags f1 f2 f3 f4 f5) pt n =
     map computeDerivedProperties
       (filter (eligible n)
          [entryOf ''claude-3-7-sonnet-20250219'' f1, entryOf ''gpt-5'' f2,
           entryOf ''gemini-1.5-flash'' f3, entryOf ''gpt-4o-mini'' f4, entryOf ''gpt-oss-20b'' f5])"
  unfolding getAvailableModels_def derived_all filter_map o_def
  by (simp add: candidate_pred entry_caps del: set_map)

lemma available_flags:
  assumes "m \<in> set (getAvailableModels (withFlags f1 f2 f3 f4 f5) pt n)"
  shows "(modelName m = ''claude-3-7-sonnet-20250219'' \<and> f1) \<or> (modelName m = ''gpt-5'' \<and> f2)
       \<or> (modelName m = ''gemini-1.5-flash'' \<and> f3) \<or> (modelName m = ''gpt-4o-mini'' \<and> f4)
       \<or> (modelName m = ''openai/gpt-oss-20b:fireworks-ai'' \<and> f5)"
proof -
  let ?es = "[entryOf ''claude-3-7-sonnet-20250219'' f1, entryOf ''gpt-5'' f2,
           entryOf ''gemini-1.5-flash'' f3, entryOf ''gpt-4o-mini'' f4, entryOf ''gpt-oss-20b'' f5]"
  from assms have "m \<in> computeDerivedProperties ` {c \<in> set ?es. eligible n c}"
    unfolding candidates_explicit by (simp only: set_map set_filter)
  then obtain c where c: "m = computeDerivedProperties c" "eligible n c" "c \<in> set ?es"
    by blast
  from c(3) consider "c = entryOf ''claude-3-7-sonnet-20250219'' f1" | "c = entryOf ''gpt-5'' f2"
    | "c = entryOf ''gemini-1.5-flash'' f3" | "c = entryOf ''gpt-4o-mini'' f4" | "c = entryOf ''gpt-oss-20b'' f5"
    by auto
  then show ?thesis
    using c(1,2) by cases (simp_all add: eligible_def entry_names entry_avail)
qed

lemma entryOf_update:
  "(entryOf k f)\<lparr>isAvailable := Some g\<rparr> = entryOf k g"
  by (simp add: entryOf_def split: option.splits)

lemma MODEL_REGISTRY_flags: "MODEL_REGISTRY = withFlags True True True True True"
  by (simp add: withFlags_def MODEL_REGISTRY_def)

lemma mark_withFlags:
  "markModelUnavailable k (withFlags f1 f2 f3 f4 f5) =
     withFlags (f1 \<and> k \<noteq> ''claude-3-7-sonnet-20250219'') (f2 \<and> k \<noteq> ''gpt-5'')
       (f3 \<and> k \<noteq> ''gemini-1.5-flash'') (f4 \<and> k \<noteq> ''gpt-4o-mini'') (f5 \<and> k \<noteq> ''gpt-oss-20b'')"
proof -
  consider "k = ''claude-3-7-sonnet-20250219''" | "k = ''gpt-5''" | "k = ''gemini-1.5-flash''"
    | "k = ''gpt-4o-mini''" | "k = ''gpt-oss-20b''"
    | "k \<noteq> ''claude-3-7-sonnet-20250219''" "k \<noteq> ''gpt-5''" "k \<noteq> ''gemini-1.5-flash''"
      "k \<noteq> ''gpt-4o-mini''" "k \<noteq> ''gpt-oss-20b''"
    by blast
  then show ?thesis
  proof cases
    case 6
    then show ?thesis
      by (simp add: markModelUnavailable_def updateModelAvailability_def withFlags_entries)
  qed (simp_all add: markModelUnavailable_def updateModelAvailability_def withFlags_entries entryOf_update)
qed

lemma reset_withFlags:
  "resetAllModelAvailability (withFlags f1 f2 f3 f4 f5) = MODEL_REGISTRY"
  by (simp add: resetAllModelAvailability_def withFlags_def MODEL_REGISTRY_def)

lemma applyOps_form:
  "\<exists>g1 g2 g3 g4 g5. applyOps ops (withFlags f1 f2 f3 f4 f5) = withFlags g1 g2 g3 g4 g5"
proof (induction ops arbitrary: f1 f2 f3 f4 f5)
  case Nil
  have "applyOps [] (withFlags f1 f2 f3 f4 f5) = withFlags f1 f2 f3 f4 f5"
    by (simp add: applyOps_def)
  then show ?case by blast
next
  case (Cons a ops)
  show ?case
  proof (cases a)
    case (MarkUnavailable name)
    then have "applyOps (a # ops) (withFlags f1 f2 f3 f4 f5)
        = applyOps ops (markModelUnavailable name (withFlags f1 f2 f3 f4 f5))"
      by (simp add: applyOps_def)
    then show ?thesis using Cons.IH by (simp add: mark_withFlags)
  next
    case ResetAll
    then have "applyOps (a # ops) (withFlags f1 f2 f3 f4 f5)
        = applyOps ops (withFlags True True True True True)"
      by (simp add: applyOps_def reset_withFlags MODEL_REGISTRY_flags [symmetric])
    then show ?thesis using Cons.IH by simp
  qed
qed

lemma reachable_form:
  "\<exists>g1 g2 g3 g4 g5. applyOps ops MODEL_REGISTRY = withFlags g1 g2 g3 g4 g5"
  using applyOps_form [of ops True True True True True] by (simp add: MODEL_REGISTRY_flags [symmetric])

lemma routeRequest_selected:
  assumes "routeRequest reg req = Inr d"
  shows "\<exists>pt. promptType req = Some pt
           \<and> (\<exists>m \<in> set (getAvailableModels reg pt (estimateTokens (prompt req))). selectedModel d = modelName m)
           \<and> priorityWeights d = getPriorityWeights (priorityPreset req)"
proof (cases "promptType req")
  case None
  with assms show ?thesis by (simp add: routeRequest_def)
next
  case (Some pt)
  let ?ms = "getAvailableModels reg pt (estimateTokens (prompt req))"
  let ?ss = "scoreModels ?ms (priorityPreset req) pt (estimateTokens (prompt req))"
  from assms Some obtain s rest where ss: "?ss = s # rest"
    by (cases ?ss) (simp_all add: routeRequest_def Let_def)
  with assms Some have d: "selectedModel d = modelName s" "priorityWeights d = getPriorityWeights (priorityPreset req)"
    by (auto simp add: routeRequest_def Let_def)
  from ss have "s \<in> set ?ss" by simp
  then obtain m where "m \<in> set ?ms" "modelName s = modelName m"
    using set_scoreModels by blast
  with d Some show ?thesis by auto
qed

lemma routeRequest_total:
  assumes "getAvailableModels reg pt (estimateTokens p) \<noteq> []"
  shows "\<exists>d. routeRequest reg \<lparr>prompt = p, promptType = Some pt, priorityPreset = preset\<rparr> = Inr d"
proof -
  let ?ss = "scoreModels (getAvailableModels reg pt (estimateTokens p)) preset pt (estimateTokens p)"
  have "length ?ss = length (getAvailableModels reg pt (estimateTokens p))"
    by (simp add: scoreModels_def)
  with assms have "?ss \<noteq> []" by auto
  then obtain s rest where "?ss = s # rest" by (cases ?ss) auto
  then show ?thesis by (simp add: routeRequest_def Let_def)
qed

lemma fold_mark_withFlags:
  "fold markModelUnavailable ns (withFlags f1 f2 f3 f4 f5) =
     withFlags (f1 \<and> ''claude-3-7-sonnet-20250219'' \<notin> set ns) (f2 \<and> ''gpt-5'' \<notin> set ns)
       (f3 \<and> ''gemini-1.5-flash'' \<notin> set ns) (f4 \<and> ''gpt-4o-mini'' \<notin> set ns)
       (f5 \<and> ''gpt-oss-20b'' \<notin> set ns)"
proof (induction ns arbitrary: f1 f2 f3 f4 f5)
  case Nil
  show ?case by simp
next
  case (Cons n ns)
  have "fold markModelUnavailable (n # ns) (withFlags f1 f2 f3 f4 f5)
      = fold markModelUnavailable ns (markModelUnavailable n (withFlags f1 f2 f3 f4 f5))"
    by simp
  also have "\<dots> = withFlags ((f1 \<and> n \<noteq> ''claude-3-7-sonnet-20250219'') \<and> ''claude-3-7-sonnet-20250219'' \<notin> set ns)
       ((f2 \<and> n \<noteq> ''gpt-5'') \<and> ''gpt-5'' \<notin> set ns)
       ((f3 \<and> n \<noteq> ''gemini-1.5-flash'') \<and> ''gemini-1.5-flash'' \<notin> set ns)
       ((f4 \<and> n \<noteq> ''gpt-4o-mini'') \<and> ''gpt-4o-mini'' \<notin> set ns)
       ((f5 \<and> n \<noteq> ''gpt-oss-20b'') \<and> ''gpt-oss-20b'' \<notin> set ns)"
    unfolding mark_withFlags by (rule Cons.IH)
  also have "\<dots> = withFlags (f1 \<and> ''claude-3-7-sonnet-20250219'' \<notin> set (n # ns)) (f2 \<and> ''gpt-5'' \<notin> set (n # ns))
       (f3 \<and> ''gemini-1.5-flash'' \<notin> set (n # ns)) (f4 \<and> ''gpt-4o-mini'' \<notin> set (n # ns))
       (f5 \<and> ''gpt-oss-20b'' \<notin> set (n # ns))"
  proof -
    have e: "\<And>f c. ((f \<and> n \<noteq> c) \<and> c \<notin> set ns) = (f \<and> c \<notin> set (n # ns))"
      by auto
    show ?thesis by (simp only: e)
  qed
  finally show ?case .
qed

lemma map_of_withFlags:
  "map_of (withFlags f1 f2 f3 f4 f5) ''claude-3-7-sonnet-20250219'' = Some (entryOf ''claude-3-7-sonnet-20250219'' f1)"
  "map_of (withFlags f1 f2 f3 f4 f5) ''gpt-5'' = Some (entryOf ''gpt-5'' f2)"
  "map_of (withFlags f1 f2 f3 f4 f5) ''gemini-1.5-flash'' = Some (entryOf ''gemini-1.5-flash'' f3)"
  "map_of (withFlags f1 f2 f3 f4 f5) ''gpt-4o-mini'' = Some (entryOf ''gpt-4o-mini'' f4)"
  "map_of (withFlags f1 f2 f3 f4 f5) ''gpt-oss-20b'' = Some (entryOf ''gpt-oss-20b'' f5)"
  "map_of (withFlags f1 f2 f3 f4 f5) ''openai/gpt-oss-20b:fireworks-ai'' = None"
  by (simp_all add: withFlags_entries)

lemma wireName_simps:
  "wireName ''claude-3-7-sonnet-20250219'' = ''claude-3-7-sonnet-20250219''"
  "wireName ''gpt-5'' = ''gpt-5''"
  "wireName ''gemini-1.5-flash'' = ''gemini-1.5-flash''"
  "wireName ''gpt-4o-mini'' = ''gpt-4o-mini''"
  "wireName ''gpt-oss-20b'' = ''openai/gpt-oss-20b:fireworks-ai''"
  by (simp_all add: wireName_def MODEL_REGISTRY_def)

lemma registry_keys:
  "k \<in> fst ` set MODEL_REGISTRY \<longleftrightarrow>
     k = ''claude-3-7-sonnet-20250219'' \<or> k = ''gpt-5'' \<or> k = ''gemini-1.5-flash''
     \<or> k = ''gpt-4o-mini'' \<or> k = ''gpt-oss-20b''"
  by (auto simp: MODEL_REGISTRY_def)

lemma unavailable_not_selected:
  assumes "routeRequest (withFlags f1 f2 f3 f4 f5) req = Inr d"
  shows "(selectedModel d = ''claude-3-7-sonnet-20250219'' \<and> f1) \<or> (selectedModel d = ''gpt-5'' \<and> f2)
       \<or> (selectedModel d = ''gemini-1.5-flash'' \<and> f3) \<or> (selectedModel d = ''gpt-4o-mini'' \<and> f4)
       \<or> (selectedModel d = ''openai/gpt-oss-20b:fireworks-ai'' \<and> f5)"
proof -
  from routeRequest_selected [OF assms] obtain pt m where
    "m \<in> set (getAvailableModels (withFlags f1 f2 f3 f4 f5) pt (estimateTokens (prompt req)))"
    "selectedModel d = modelName m"
    by blast
  with available_flags [of m f1 f2 f3 f4 f5 pt "estimateTokens (prompt req)"] show ?thesis
    by simp
qed

text \<open>
  Claim C2. Let the registry be in any state reached from the initial one by marking and
  resetting, and let \<open>k\<close> be a registry key. After \<open>markModelUnavailable k\<close>, and after any
  further \<open>markModelUnavailable\<close> calls, the entry of \<open>k\<close> has the flag \<open>false\<close> and no
  routing decision, for any request (prompt, prompt type, preset), selects the model of
  \<open>k\<close> (a decision names a model by the \<open>modelName\<close> of its entry).
  \<open>resetAllModelAvailability\<close> sets every flag to \<open>true\<close>: the registry is the initial
  one again, so every model is eligible as at the start.
\<close>

theorem C2_unavailable_until_reset:
  assumes "k \<in> fst ` set MODEL_REGISTRY"
  shows "let reg = fold markModelUnavailable ns (markModelUnavailable k (applyOps ops MODEL_REGISTRY))
         in (\<exists>c. map_of reg k = Some c \<and> isAvailable c = Some False)
          \<and> (\<forall>req d. routeRequest reg req = Inr d \<longrightarrow> selectedModel d \<noteq> wireName k)
          \<and> resetAllModelAvailability reg = MODEL_REGISTRY
          \<and> list_all (\<lambda>(name, c). isAvailable c = Some True) (resetAllModelAvailability reg)"
proof -
  obtain g1 g2 g3 g4 g5 where g: "applyOps ops MODEL_REGISTRY = withFlags g1 g2 g3 g4 g5"
    using reachable_form by blast
  define reg where "reg = fold markModelUnavailable ns (markModelUnavailable k (applyOps ops MODEL_REGISTRY))"
  have reg: "reg = withFlags
       ((g1 \<and> k \<noteq> ''claude-3-7-sonnet-20250219'') \<and> ''claude-3-7-sonnet-20250219'' \<notin> set ns)
       ((g2 \<and> k \<noteq> ''gpt-5'') \<and> ''gpt-5'' \<notin> set ns)
       ((g3 \<and> k \<noteq> ''gemini-1.5-flash'') \<and> ''gemini-1.5-flash'' \<notin> set ns)
       ((g4 \<and> k \<noteq> ''gpt-4o-mini'') \<and> ''gpt-4o-mini'' \<notin> set ns)
       ((g5 \<and> k \<noteq> ''gpt-oss-20b'') \<and> ''gpt-oss-20b'' \<notin> set ns)"
    unfolding reg_def g mark_withFlags fold_mark_withFlags ..
  have a: "\<exists>c. map_of reg k = Some c \<and> isAvailable c = Some False"
    using assms [unfolded registry_keys]
    by (elim disjE) (simp_all add: reg map_of_withFlags entry_avail)
  have b: "selectedModel d \<noteq> wireName k" if "routeRequest reg req = Inr d" for req d
  proof
    assume eq: "selectedModel d = wireName k"
    note sel = unavailable_not_selected [OF that [unfolded reg]]
    from assms [unfolded registry_keys] show False
    proof (elim disjE)
      assume "k = ''claude-3-7-sonnet-20250219''"
      with sel eq show False by (simp add: wireName_simps)
    next
      assume "k = ''gpt-5''"
      with sel eq show False by (simp add: wireName_simps)
    next
      assume "k = ''gemini-1.5-flash''"
      with sel eq show False by (simp add: wireName_simps)
    next
      assume "k = ''gpt-4o-mini''"
      with sel eq show False by (simp add: wireName_simps)
    next
      assume "k = ''gpt-oss-20b''"
      with sel eq show False by (simp add: wireName_simps)
    qed
  qed
  have c: "resetAllModelAvailability reg = MODEL_REGISTRY"
    unfolding reg by (rule reset_withFlags)
  have d: "list_all (\<lambda>(name, c). isAvailable c = Some True) (resetAllModelAvailability reg)"
    unfolding c by (simp add: MODEL_REGISTRY_def)
  from a b c d show ?thesis unfolding reg_def Let_def by blast
qed

lemma handleRoutingError_registry:
  "registry (snd (handleRoutingError env st p preset err uid sid pt conf)) = registry st"
  by (simp add: handleRoutingError_def Let_def split: sum.splits)

lemma handleRoutingError_logs:
  "(case handleRoutingError env st p preset err uid sid pt conf of
      (Inl e, st') \<Rightarrow> requestLogs st' = requestLogs st \<and> e = routingFailed (errorMessageOf err)
    | (Inr r, st') \<Rightarrow>
        (\<exists>entry. requestLogs st' = logRequest entry (requestLogs st)
           \<and> log_prompt entry = p
           \<and> log_selectedModel entry = selectedModel (routingDecision r)
           \<and> costUsd entry = actualCost r
           \<and> log_error entry = Some (errorMessageOf err)))"
  apply (simp add: handleRoutingError_def Let_def split: sum.splits)
  apply (intro conjI impI allI)
   apply ((rule exI, rule conjI, rule refl, simp)+)
  done

lemma routePrompt_route_failed:
  assumes "routeRequest (registry st) (requestOf env p preset) = Inl err"
  shows "routePrompt env st p preset uid sid =
           handleRoutingError env st p preset err uid sid (classifiedType env p)
             (hy_confidence (classify (runtime env) (modelClassifier env) p))"
  using assms by (simp add: routePrompt_def Let_def requestOf_def classifiedType_def)

lemma routePrompt_client_failed:
  assumes "routeRequest (registry st) (requestOf env p preset) = Inr d"
    and "getClient (registry st) (selectedModel d) = Inl err"
  shows "routePrompt env st p preset uid sid =
           handleRoutingError env st p preset err uid sid (classifiedType env p)
             (hy_confidence (classify (runtime env) (modelClassifier env) p))"
  using assms by (simp add: routePrompt_def Let_def requestOf_def classifiedType_def)

lemma routePrompt_backend_failed:
  assumes "routeRequest (registry st) (requestOf env p preset) = Inr d"
    and "getClient (registry st) (selectedModel d) = Inr cl"
    and "generateResponse env (client_modelName cl) p (primaryOptions (runtime env) (classifiedType env p)) = Inl err"
  shows "routePrompt env st p preset uid sid =
           handleRoutingError env
             (st\<lparr>calls := calls st @ [(client_modelName cl, p, primaryOptions (runtime env) (classifiedType env p))],
                 registry := markModelUnavailable (selectedModel d) (registry st)\<rparr>)
             p preset err uid sid (classifiedType env p)
             (hy_confidence (classify (runtime env) (modelClassifier env) p))"
  using assms by (simp add: routePrompt_def Let_def requestOf_def classifiedType_def primaryOptions_def)

lemma routePrompt_primary:
  assumes "routeRequest (registry st) (requestOf env p preset) = Inr d"
    and "getClient (registry st) (selectedModel d) = Inr cl"
    and "generateResponse env (client_modelName cl) p (primaryOptions (runtime env) (classifiedType env p)) = Inr content"
  shows "\<exists>r entry. routePrompt env st p preset uid sid =
           (Inr r, st\<lparr>calls := calls st @ [(client_modelName cl, p, primaryOptions (runtime env) (classifiedType env p))],
                      requestLogs := logRequest entry (requestLogs st)\<rparr>)
         \<and> log_prompt entry = p \<and> log_selectedModel entry = selectedModel d
         \<and> costUsd entry = actualCost r \<and> log_error entry = None
         \<and> routingDecision r = d \<and> modelUsed r = selectedModel d
         \<and> rr_promptType r = classifiedType env p
         \<and> actualCost r = calculateActualCost (registry st) (selectedModel d) (length p) (length content)
         \<and> costSavings r = calculateCostSavings (registry st) (actualCost r) (classifiedType env p)
         \<and> (response r, wasTruncated r)
             = truncateResponse (if content = [] then ''No response generated'' else content)"
  using assms
  apply (simp add: routePrompt_def Let_def requestOf_def classifiedType_def primaryOptions_def)
  apply (rule exI, rule conjI, rule refl)
  apply simp
  done

lemma fresh_candidates_nonempty:
  "n \<le> 128000 \<Longrightarrow> getAvailableModels MODEL_REGISTRY pt n \<noteq> []"
  by (simp add: MODEL_REGISTRY_flags candidates_explicit eligible_def entry_windows entry_avail)

theorem C2_witness:
  "''gpt-5'' \<in> fst ` set MODEL_REGISTRY
   \<and> (\<exists>c. map_of (markModelUnavailable ''gpt-5'' MODEL_REGISTRY) ''gpt-5'' = Some c
          \<and> isAvailable c = Some False)
   \<and> (\<exists>d. routeRequest (markModelUnavailable ''gpt-5'' MODEL_REGISTRY)
              \<lparr>prompt = ''Explain quantum physics in simple terms'', promptType = Some QA,
               priorityPreset = QUALITY\<rparr> = Inr d
          \<and> selectedModel d \<noteq> ''gpt-5'')
   \<and> resetAllModelAvailability (markModelUnavailable ''gpt-5'' MODEL_REGISTRY) = MODEL_REGISTRY"
proof -
  have k: "''gpt-5'' \<in> fst ` set MODEL_REGISTRY"
    by (simp add: registry_keys)
  note inst = C2_unavailable_until_reset [OF k, of "[]" "[]", unfolded Let_def, simplified applyOps_def, simplified]
  have "getAvailableModels (markModelUnavailable ''gpt-5'' MODEL_REGISTRY) QA
          (estimateTokens ''Explain quantum physics in simple terms'') \<noteq> []"
    by (simp add: MODEL_REGISTRY_flags mark_withFlags candidates_explicit eligible_def
          entry_windows entry_avail estimateTokens_def)
  from routeRequest_total [OF this, of QUALITY] obtain d where
    d: "routeRequest (markModelUnavailable ''gpt-5'' MODEL_REGISTRY)
              \<lparr>prompt = ''Explain quantum physics in simple terms'', promptType = Some QA,
               priorityPreset = QUALITY\<rparr> = Inr d"
    by blast
  with inst have "selectedModel d \<noteq> ''gpt-5''"
    by (simp add: wireName_simps)
  with d k inst show ?thesis by blast
qed

lemma tps:
  "throughputTps (computeDerivedProperties (entryOf ''claude-3-7-sonnet-20250219'' f)) = 746"
  "throughputTps (computeDerivedProperties (entryOf ''gpt-5'' f)) = 133"
  "throughputTps (computeDerivedProperties (entryOf ''gemini-1.5-flash'' f)) = 2222"
  "throughputTps (computeDerivedProperties (entryOf ''gpt-4o-mini'' f)) = 2174"
  "throughputTps (computeDerivedProperties (entryOf ''gpt-oss-20b'' f)) = 1250"
  by (simp_all add: computeDerivedProperties_def BaseModelConfig.extend_def ModelConfig.fields_def
        entryOf_def MODEL_REGISTRY_def floor_eq_iff)

lemma derived_fields:
  "inputCostPer1kTokens (computeDerivedProperties c) = priceInputPerMillion c / 1000"
  "outputCostPer1kTokens (computeDerivedProperties c) = priceOutputPerMillion c / 1000"
  "latencyMs (computeDerivedProperties c) = latencyP50Seconds c * 1000"
  "qualityPriors (computeDerivedProperties c) pt = orDefault (map_of (qualityPriorByType c) pt) 0.5"
  by (simp_all add: computeDerivedProperties_def BaseModelConfig.extend_def ModelConfig.fields_def)

lemma entry_numbers:
  "priceInputPerMillion (entryOf ''claude-3-7-sonnet-20250219'' f) = 3"
  "priceInputPerMillion (entryOf ''gpt-5'' f) = 1.25"
  "priceInputPerMillion (entryOf ''gemini-1.5-flash'' f) = 0.3"
  "priceInputPerMillion (entryOf ''gpt-4o-mini'' f) = 0.15"
  "priceInputPerMillion (entryOf ''gpt-oss-20b'' f) = 0"
  "latencyP50Seconds (entryOf ''claude-3-7-sonnet-20250219'' f) = 1.34"
  "latencyP50Seconds (entryOf ''gpt-5'' f) = 7.52"
  "latencyP50Seconds (entryOf ''gemini-1.5-flash'' f) = 0.45"
  "latencyP50Seconds (entryOf ''gpt-4o-mini'' f) = 0.46"
  "latencyP50Seconds (entryOf ''gpt-oss-20b'' f) = 0.8"
  by (simp_all add: entryOf_def MODEL_REGISTRY_def)

lemma entry_summarize:
  "map_of (qualityPriorByType (entryOf ''claude-3-7-sonnet-20250219'' f)) SUMMARIZE = Some 0.95"
  "map_of (qualityPriorByType (entryOf ''gpt-5'' f)) SUMMARIZE = Some 0.96"
  "map_of (qualityPriorByType (entryOf ''gemini-1.5-flash'' f)) SUMMARIZE = Some 0.88"
  "map_of (qualityPriorByType (entryOf ''gpt-4o-mini'' f)) SUMMARIZE = Some 0.80"
  "map_of (qualityPriorByType (entryOf ''gpt-oss-20b'' f)) SUMMARIZE = Some 0.82"
  by (simp_all add: entryOf_def MODEL_REGISTRY_def allTypes_def)

lemma fresh_candidates:
  "n \<le> 128000 \<Longrightarrow> getAvailableModels MODEL_REGISTRY pt n = freshCandidates"
  by (simp add: MODEL_REGISTRY_flags candidates_explicit eligible_def entry_windows entry_avail
        freshCandidates_def cand_def)

lemma cost_summarize_scores:
  assumes "n \<le> 1000"
  shows "modelScore (getPriorityWeights COST) freshCandidates SUMMARIZE n
           (cand ''claude-3-7-sonnet-20250219'') = 6035607/20886800"
    and "modelScore (getPriorityWeights COST) freshCandidates SUMMARIZE n
           (cand ''gpt-5'') = 1005443/1666500"
    and "modelScore (getPriorityWeights COST) freshCandidates SUMMARIZE n
           (cand ''gemini-1.5-flash'') = 178603/188000"
    and "modelScore (getPriorityWeights COST) freshCandidates SUMMARIZE n
           (cand ''gpt-4o-mini'') = 4042861/4177360"
    and "modelScore (getPriorityWeights COST) freshCandidates SUMMARIZE n
           (cand ''gpt-oss-20b'') = 25625219/26108500"
  using assms
  by (simp_all add: freshCandidates_def cand_def modelScore_def Let_def derived_fields entry_numbers
        entry_summarize tps orDefault_def getPriorityWeights_def)

lemma insort_key_map:
  "insort_key f (h x) (map h ys) = map h (insort_key (\<lambda>y. f (h y)) x ys)"
  by (induction ys) simp_all

lemma sort_key_map:
  "sort_key f (map h xs) = map h (sort_key (\<lambda>y. f (h y)) xs)"
  by (induction xs) (simp_all add: insort_key_map)

lemma score_extend: "score (ModelConfig.extend m (ScoredModel.fields s)) = s"
  by (simp add: ModelConfig.extend_def ScoredModel.fields_def)

lemma modelName_extend: "modelName (ModelConfig.extend m (ScoredModel.fields s)) = modelName m"
  by (simp add: ModelConfig.extend_def)

lemma scoreModels_ranked:
  "scoreModels models preset pt n =
     map (\<lambda>model. ModelConfig.extend model
            (ScoredModel.fields (modelScore (getPriorityWeights preset) models pt n model)))
       (sort_key (\<lambda>model. - modelScore (getPriorityWeights preset) models pt n model) models)"
  unfolding scoreModels_def sort_key_map score_extend ..

lemma cost_summarize_order:
  assumes "n \<le> 1000"
  shows "sort_key (\<lambda>model. - modelScore (getPriorityWeights COST) freshCandidates SUMMARIZE n model)
           [cand ''claude-3-7-sonnet-20250219'', cand ''gpt-5'',
            cand ''gemini-1.5-flash'', cand ''gpt-4o-mini'', cand ''gpt-oss-20b'']
         = [cand ''gpt-oss-20b'', cand ''gpt-4o-mini'', cand ''gemini-1.5-flash'', cand ''gpt-5'',
            cand ''claude-3-7-sonnet-20250219'']"
  by (simp add: cost_summarize_scores [OF assms])

lemma cand_names:
  "modelName (cand ''claude-3-7-sonnet-20250219'') = ''claude-3-7-sonnet-20250219''"
  "modelName (cand ''gpt-5'') = ''gpt-5''"
  "modelName (cand ''gemini-1.5-flash'') = ''gemini-1.5-flash''"
  "modelName (cand ''gpt-4o-mini'') = ''gpt-4o-mini''"
  "modelName (cand ''gpt-oss-20b'') = ''openai/gpt-oss-20b:fireworks-ai''"
  by (simp_all add: cand_def entry_names)

lemma cost_summarize_selected:
  assumes "estimateTokens p \<le> 1000"
    and "routeRequest MODEL_REGISTRY \<lparr>prompt = p, promptType = Some SUMMARIZE, priorityPreset = COST\<rparr> = Inr d"
  shows "selectedModel d = ''openai/gpt-oss-20b:fireworks-ai''"
proof -
  from assms(1) have n: "estimateTokens p \<le> 128000" by simp
  have "scoreModels freshCandidates COST SUMMARIZE (estimateTokens p) =
      map (\<lambda>model. ModelConfig.extend model
            (ScoredModel.fields (modelScore (getPriorityWeights COST) freshCandidates SUMMARIZE (estimateTokens p) model)))
        [cand ''gpt-oss-20b'', cand ''gpt-4o-mini'', cand ''gemini-1.5-flash'', cand ''gpt-5'',
            cand ''claude-3-7-sonnet-20250219'']"
    unfolding scoreModels_ranked
    by (subst (3) freshCandidates_def) (simp only: cost_summarize_order [OF assms(1)])
  then have "map_sum id selectedModel
          (routeRequest MODEL_REGISTRY \<lparr>prompt = p, promptType = Some SUMMARIZE, priorityPreset = COST\<rparr>)
        = Inr ''openai/gpt-oss-20b:fireworks-ai''"
    by (simp add: routeRequest_def Let_def fresh_candidates [OF n] modelName_extend cand_names)
  with assms(2) show ?thesis by simp
qed

lemma entry_providers:
  "provider (entryOf ''claude-3-7-sonnet-20250219'' f) = ANTHROPIC"
  "provider (entryOf ''gpt-5'' f) = OPENAI"
  "provider (entryOf ''gemini-1.5-flash'' f) = GOOGLE"
  "provider (entryOf ''gpt-4o-mini'' f) = OPENAI"
  "provider (entryOf ''gpt-oss-20b'' f) = HUGGINGFACE"
  by (simp_all add: entryOf_def MODEL_REGISTRY_def)

lemma getClient_withFlags:
  "getClient (withFlags f1 f2 f3 f4 f5) ''claude-3-7-sonnet-20250219''
     = Inr \<lparr>client_provider = ANTHROPIC, client_modelName = ''claude-3-7-sonnet-20250219''\<rparr>"
  "getClient (withFlags f1 f2 f3 f4 f5) ''gpt-5''
     = Inr \<lparr>client_provider = OPENAI, client_modelName = ''gpt-5''\<rparr>"
  "getClient (withFlags f1 f2 f3 f4 f5) ''gemini-1.5-flash''
     = Inr \<lparr>client_provider = GOOGLE, client_modelName = ''gemini-1.5-flash''\<rparr>"
  "getClient (withFlags f1 f2 f3 f4 f5) ''gpt-4o-mini''
     = Inr \<lparr>client_provider = OPENAI, client_modelName = ''gpt-4o-mini''\<rparr>"
  "getClient (withFlags f1 f2 f3 f4 f5) ''openai/gpt-oss-20b:fireworks-ai''
     = Inr \<lparr>client_provider = HUGGINGFACE, client_modelName = ''openai/gpt-oss-20b:fireworks-ai''\<rparr>"
  "getClient (withFlags f1 f2 f3 f4 f5) ''gpt-oss-20b''
     = Inr \<lparr>client_provider = HUGGINGFACE, client_modelName = ''openai/gpt-oss-20b:fireworks-ai''\<rparr>"
  by (simp_all add: getClient_def createClient_def withFlags_entries entry_names entry_providers)

lemma getClient_selected:
  assumes "routeRequest (withFlags f1 f2 f3 f4 f5) req = Inr d"
  shows "\<exists>prov. getClient (withFlags f1 f2 f3 f4 f5) (selectedModel d)
           = Inr \<lparr>client_provider = prov, client_modelName = selectedModel d\<rparr>"
  using unavailable_not_selected [OF assms]
  by (elim disjE conjE) (simp_all add: getClient_withFlags)

lemma toLower_keywords: "map toLowerCase (keywordsOf pt) = keywordsOf pt"
  by (cases pt) (simp_all add: toLowerCase_def toLowerChar_def)

lemma matchedFor_plain:
  "matchedFor s pt = filter (str_includes s) (keywordsOf pt)"
proof -
  have "\<And>kw. kw \<in> set (keywordsOf pt) \<Longrightarrow> toLowerCase kw = kw"
    using toLower_keywords [of pt] by (metis map_eq_conv map_ident)
  then show ?thesis
    unfolding matchedFor_def by (intro filter_cong) simp_all
qed

lemma prompt0_lower: "toLowerCase prompt0 = ''summarize the key points of machine learning''"
  by (simp add: prompt0_def toLowerCase_def toLowerChar_def)

lemma prompt0_matched:
  "matchedFor ''summarize the key points of machine learning'' CODE = []"
  "matchedFor ''summarize the key points of machine learning'' SUMMARIZE = [''summarize'', ''key points'']"
  "matchedFor ''summarize the key points of machine learning'' QA = [''hi'']"
  "matchedFor ''summarize the key points of machine learning'' CREATIVE = []"
  "matchedFor ''summarize the key points of machine learning'' MATH_REASONING = [''y'', ''z'']"
  by (simp_all add: matchedFor_plain)

lemma prompt0_scores:
  "heuristicScores prompt0 =
     [\<lparr>se_promptType = CODE, se_score = 0, matchedKeywords = []\<rparr>,
      \<lparr>se_promptType = SUMMARIZE, se_score = 8/15, matchedKeywords = [''summarize'', ''key points'']\<rparr>,
      \<lparr>se_promptType = QA, se_score = 23/130, matchedKeywords = [''hi'']\<rparr>,
      \<lparr>se_promptType = CREATIVE, se_score = 0, matchedKeywords = []\<rparr>,
      \<lparr>se_promptType = MATH_REASONING, se_score = 22/85, matchedKeywords = [''y'', ''z'']\<rparr>,
      \<lparr>se_promptType = UNKNOWN, se_score = 0, matchedKeywords = []\<rparr>]"
  by (simp add: heuristicScores_def prompt0_lower prompt0_matched promptTypeOrder_def
        calculateKeywordScore_def Let_def)

lemma prompt0_heuristic:
  "h_promptType (heuristicClassify prompt0) = SUMMARIZE"
  "h_confidence (heuristicClassify prompt0) = 8/15"
  by (simp_all add: heuristicClassify_def prompt0_scores findBestMatch_def heuristicConfidence_def Let_def)

lemma routeRequest_weights:
  "routeRequest reg req = Inr d \<Longrightarrow> priorityWeights d = getPriorityWeights (priorityPreset req)"
  using routeRequest_selected by blast

text \<open>
  Claim C1 (evaluated on the code). The routing engine takes its weights from
  \<open>PRIORITY_WEIGHTS\<close> of the routing rules, not from \<open>DEFAULT_PRIORITY_WEIGHTS\<close>: for the
  preset \<open>QUALITY\<close> it scores with, and records in the decision, the triple
  \<open>(0.70, 0.20, 0.10)\<close>, which is not the \<open>(0.65, 0.15, 0.20)\<close> of the claim.
\<close>

theorem C1_engine_uses_routing_rule_weights:
  "getPriorityWeights QUALITY = \<lparr>quality = 0.70, cost = 0.20, latency = 0.10\<rparr>
   \<and> getPriorityWeights QUALITY \<noteq> \<lparr>quality = 0.65, cost = 0.15, latency = 0.20\<rparr>
   \<and> (\<exists>d. routeRequest MODEL_REGISTRY
              \<lparr>prompt = ''Solve: 2x + 5 = 13'', promptType = Some MATH_REASONING,
               priorityPreset = QUALITY\<rparr> = Inr d
          \<and> priorityWeights d = \<lparr>quality = 0.70, cost = 0.20, latency = 0.10\<rparr>)"
proof -
  have w: "getPriorityWeights QUALITY = \<lparr>quality = 0.70, cost = 0.20, latency = 0.10\<rparr>"
    by (simp add: getPriorityWeights_def)
  have ne: "getPriorityWeights QUALITY \<noteq> \<lparr>quality = 0.65, cost = 0.15, latency = 0.20\<rparr>"
    by (simp add: getPriorityWeights_def)
  have "getAvailableModels MODEL_REGISTRY MATH_REASONING (estimateTokens ''Solve: 2x + 5 = 13'') \<noteq> []"
    by (rule fresh_candidates_nonempty) (simp add: estimateTokens_def)
  from routeRequest_total [OF this, of QUALITY] obtain d where
    d: "routeRequest MODEL_REGISTRY
              \<lparr>prompt = ''Solve: 2x + 5 = 13'', promptType = Some MATH_REASONING,
               priorityPreset = QUALITY\<rparr> = Inr d"
    by blast
  from routeRequest_weights [OF d] w have "priorityWeights d = \<lparr>quality = 0.70, cost = 0.20, latency = 0.10\<rparr>"
    by simp
  with d w ne show ?thesis by blast
qed

lemma routePrompt_cases:
  obtains (route_failed) err where
      "routeRequest (registry st) (requestOf env p preset) = Inl err"
    | (client_failed) d err where
      "routeRequest (registry st) (requestOf env p preset) = Inr d"
      "getClient (registry st) (selectedModel d) = Inl err"
    | (backend_failed) d cl err where
      "routeRequest (registry st) (requestOf env p preset) = Inr d"
      "getClient (registry st) (selectedModel d) = Inr cl"
      "generateResponse env (client_modelName cl) p (primaryOptions (runtime env) (classifiedType env p)) = Inl err"
    | (primary) d cl content where
      "routeRequest (registry st) (requestOf env p preset) = Inr d"
      "getClient (registry st) (selectedModel d) = Inr cl"
      "generateResponse env (client_modelName cl) p (primaryOptions (runtime env) (classifiedType env p)) = Inr content"
proof (cases "routeRequest (registry st) (requestOf env p preset)")
  case (Inl err)
  then show ?thesis by (rule route_failed)
next
  case (Inr d)
  show ?thesis
  proof (cases "getClient (registry st) (selectedModel d)")
    case (Inl err)
    with Inr show ?thesis by (rule client_failed)
  next
    case cl: (Inr cl)
    show ?thesis
    proof (cases "generateResponse env (client_modelName cl) p (primaryOptions (runtime env) (classifiedType env p))")
      case (Inl err)
      with Inr cl show ?thesis by (rule backend_failed)
    next
      case c: (Inr content)
      with Inr cl show ?thesis by (rule primary)
    qed
  qed
qed

text \<open>
  Claim C5, amended. Whenever \<open>routePrompt\<close> returns a response, from the selected backend
  or from the static fallback, exactly one entry for this request has been appended to the
  log buffer (through \<open>logRequest\<close>, with the request's prompt, the model of the returned
  decision and the returned cost). When \<open>routePrompt\<close> throws, after the selected model
  and the fallback have both failed, the log buffer is left as it was.
\<close>

theorem C5_responses_logged_failures_not:
  "(case routePrompt env st p preset uid sid of
      (Inr r, st') \<Rightarrow>
        (\<exists>entry. requestLogs st' = logRequest entry (requestLogs st)
           \<and> log_prompt entry = p
           \<and> log_selectedModel entry = selectedModel (routingDecision r)
           \<and> costUsd entry = actualCost r)
    | (Inl e, st') \<Rightarrow> requestLogs st' = requestLogs st)"
proof (cases rule: routePrompt_cases [of st env p preset])
  case (route_failed err)
  show ?thesis
    unfolding routePrompt_route_failed [OF route_failed]
    using handleRoutingError_logs [where env = env and st = st and p = p and preset = preset
        and err = err and uid = uid and sid = sid and pt = "classifiedType env p"
        and conf = "hy_confidence (classify (runtime env) (modelClassifier env) p)"]
    by (auto split: prod.splits sum.splits)
next
  case (client_failed d err)
  show ?thesis
    unfolding routePrompt_client_failed [OF client_failed]
    using handleRoutingError_logs [where env = env and st = st and p = p and preset = preset
        and err = err and uid = uid and sid = sid and pt = "classifiedType env p"
        and conf = "hy_confidence (classify (runtime env) (modelClassifier env) p)"]
    by (auto split: prod.splits sum.splits)
next
  case (backend_failed d cl err)
  show ?thesis
    unfolding routePrompt_backend_failed [OF backend_failed]
    using handleRoutingError_logs [where env = env and st = "st\<lparr>calls := calls st @ [(client_modelName cl, p, primaryOptions (runtime env) (classifiedType env p))],
            registry := markModelUnavailable (selectedModel d) (registry st)\<rparr>"
        and p = p and preset = preset
        and err = err and uid = uid and sid = sid and pt = "classifiedType env p"
        and conf = "hy_confidence (classify (runtime env) (modelClassifier env) p)"]
    by (auto split: prod.splits sum.splits)
next
  case (primary d cl content)
  from routePrompt_primary [OF primary, where uid = uid and sid = sid] show ?thesis
    by (auto split: prod.splits sum.splits)
qed

lemma handleRoutingError_fallback_failed:
  assumes "getClient (registry st) ''gpt-4o-mini'' = Inr fc"
    and "generateResponse env (client_modelName fc) p (fallbackOptions pt) = Inl e2"
  shows "handleRoutingError env st p preset err uid sid pt conf =
           (Inl (routingFailed (errorMessageOf err)),
            st\<lparr>calls := calls st @ [(client_modelName fc, p, fallbackOptions pt)]\<rparr>)"
  using assms by (simp add: handleRoutingError_def Let_def)

lemma both_fail:
  assumes reg: "registry st = withFlags f1 f2 f3 f4 f5"
    and cands: "getAvailableModels (registry st) (classifiedType env p) (estimateTokens p) \<noteq> []"
    and fail: "\<And>name opts. generateResponse env name p opts = Inl err"
  shows "\<exists>d. routeRequest (registry st) (requestOf env p preset) = Inr d
           \<and> routePrompt env st p preset uid sid =
               (Inl (routingFailed (errorMessageOf err)),
                st\<lparr>calls := calls st @ [(selectedModel d, p, primaryOptions (runtime env) (classifiedType env p)),
                                         (''gpt-4o-mini'', p, fallbackOptions (classifiedType env p))],
                    registry := markModelUnavailable (selectedModel d) (registry st)\<rparr>)"
proof -
  from routeRequest_total [OF cands, of preset] obtain d where
    d: "routeRequest (registry st) (requestOf env p preset) = Inr d"
    unfolding requestOf_def by blast
  from getClient_selected [OF d [unfolded reg]] obtain prov where
    cl: "getClient (registry st) (selectedModel d) = Inr \<lparr>client_provider = prov, client_modelName = selectedModel d\<rparr>"
    unfolding reg by blast
  let ?st1 = "st\<lparr>calls := calls st @ [(selectedModel d, p, primaryOptions (runtime env) (classifiedType env p))],
                 registry := markModelUnavailable (selectedModel d) (registry st)\<rparr>"
  have step: "routePrompt env st p preset uid sid =
      handleRoutingError env ?st1 p preset err uid sid (classifiedType env p)
        (hy_confidence (classify (runtime env) (modelClassifier env) p))"
    using routePrompt_backend_failed [OF d cl, of err uid sid] fail by simp
  have "registry ?st1 = markModelUnavailable (selectedModel d) (withFlags f1 f2 f3 f4 f5)"
    by (simp add: reg)
  then have fc: "getClient (registry ?st1) ''gpt-4o-mini'' = Inr \<lparr>client_provider = OPENAI, client_modelName = ''gpt-4o-mini''\<rparr>"
    by (simp only: mark_withFlags getClient_withFlags)
  have "handleRoutingError env ?st1 p preset err uid sid (classifiedType env p)
        (hy_confidence (classify (runtime env) (modelClassifier env) p)) =
      (Inl (routingFailed (errorMessageOf err)),
       ?st1\<lparr>calls := calls ?st1 @ [(''gpt-4o-mini'', p, fallbackOptions (classifiedType env p))]\<rparr>)"
    using handleRoutingError_fallback_failed [OF fc, of env p "classifiedType env p" err] fail
    by simp
  with step d show ?thesis by simp
qed

text \<open>
  Claim C5 fails for final failures. With every backend timing out, \<open>routePrompt\<close> on a
  fresh service invokes the selected backend and the fallback (two invocations), throws
  \<open>Routing failed: Request timed out\<close>, and the log buffer is still empty: the outcome
  was not appended.
\<close>

theorem C5_final_failure_not_logged:
  "fst (routePrompt envDown st0 ''Hello, how are you?'' BALANCED None None)
     = Inl (JsError ''Routing failed: Request timed out'')
   \<and> length (calls (snd (routePrompt envDown st0 ''Hello, how are you?'' BALANCED None None))) = 2
   \<and> requestLogs (snd (routePrompt envDown st0 ''Hello, how are you?'' BALANCED None None)) = []"
proof -
  have reg: "registry st0 = withFlags True True True True True"
    by (simp add: st0_def MODEL_REGISTRY_flags)
  have cands: "getAvailableModels (registry st0) (classifiedType envDown ''Hello, how are you?'')
      (estimateTokens ''Hello, how are you?'') \<noteq> []"
    unfolding st0_def by (simp add: fresh_candidates_nonempty estimateTokens_def)
  have fail: "\<And>name opts. generateResponse envDown name ''Hello, how are you?'' opts = Inl (JsError ''Request timed out'')"
    by (simp add: envDown_def)
  from both_fail [OF reg cands fail, of BALANCED None None] show ?thesis
    by (auto simp: routingFailed_def errorMessageOf_def st0_def)
qed

lemma prompt0_classified:
  "hy_promptType (classify (Server (Some serverEnv0)) (\<lambda>p. Inr \<lparr>m_promptType = SUMMARIZE, m_confidence = 0.9\<rparr>) prompt0) = SUMMARIZE"
  "hy_confidence (classify (Server (Some serverEnv0)) (\<lambda>p. Inr \<lparr>m_promptType = SUMMARIZE, m_confidence = 0.9\<rparr>) prompt0) = 0.9"
  by (simp_all add: classify_def getConfidenceThreshold_def getServerEnv_def Let_def
        shouldUseHeuristic_def prompt0_heuristic combineResults_def)

lemma oss_failure_keeps_registry:
  assumes reg: "registry st = withFlags f1 f2 f3 f4 f5"
    and d: "routeRequest (registry st) (requestOf env p preset) = Inr d"
    and sel: "selectedModel d = ''openai/gpt-oss-20b:fireworks-ai''"
    and fail: "generateResponse env ''openai/gpt-oss-20b:fireworks-ai'' p
                 (primaryOptions (runtime env) (classifiedType env p)) = Inl err"
  shows "routePrompt env st p preset uid sid =
           handleRoutingError env
             (st\<lparr>calls := calls st @ [(''openai/gpt-oss-20b:fireworks-ai'', p,
                                       primaryOptions (runtime env) (classifiedType env p))]\<rparr>)
             p preset err uid sid (classifiedType env p)
             (hy_confidence (classify (runtime env) (modelClassifier env) p))"
    and "f5"
proof -
  have cl: "getClient (registry st) (selectedModel d) =
      Inr \<lparr>client_provider = HUGGINGFACE, client_modelName = ''openai/gpt-oss-20b:fireworks-ai''\<rparr>"
    unfolding reg sel by (rule getClient_withFlags)
  have unchanged: "markModelUnavailable (selectedModel d) (registry st) = registry st"
    unfolding reg sel mark_withFlags by simp
  from routePrompt_backend_failed [OF d cl, of err uid sid] fail
  show "routePrompt env st p preset uid sid =
           handleRoutingError env
             (st\<lparr>calls := calls st @ [(''openai/gpt-oss-20b:fireworks-ai'', p,
                                       primaryOptions (runtime env) (classifiedType env p))]\<rparr>)
             p preset err uid sid (classifiedType env p)
             (hy_confidence (classify (runtime env) (modelClassifier env) p))"
    by (simp add: unchanged)
  from unavailable_not_selected [OF d [unfolded reg]] sel show "f5" by simp
qed

text \<open>
  Claim C4. \<open>updateModelAvailability\<close> with a name that is not a registry key returns the
  registry unchanged. The router marks a failed model by \<open>selectedModel\<close> of the decision,
  which is the \<open>modelName\<close> of the entry: when the decision selects
  \<open>openai/gpt-oss-20b:fireworks-ai\<close> (the entry under the key \<open>gpt-oss-20b\<close>) and its
  backend fails, the registry after \<open>routePrompt\<close> is the registry before it, the flag of
  \<open>gpt-oss-20b\<close> is still \<open>true\<close>, and the same request gets the same decision again.
\<close>

theorem C4_unknown_name_leaves_registry:
  "(map_of reg name = None \<longrightarrow> updateModelAvailability name flag reg = reg)
   \<and> (let st = \<lparr>registry = applyOps ops MODEL_REGISTRY, requestLogs = logs, calls = cs\<rparr>;
          st' = snd (routePrompt env st p preset uid sid)
      in \<forall>d. routeRequest (registry st) (requestOf env p preset) = Inr d
               \<and> selectedModel d = ''openai/gpt-oss-20b:fireworks-ai''
               \<and> isl (generateResponse env ''openai/gpt-oss-20b:fireworks-ai'' p
                        (primaryOptions (runtime env) (classifiedType env p)))
             \<longrightarrow> registry st' = registry st
               \<and> (\<exists>c. map_of (registry st') ''gpt-oss-20b'' = Some c \<and> isAvailable c = Some True)
               \<and> routeRequest (registry st') (requestOf env p preset) = Inr d)"
proof -
  have a: "map_of reg name = None \<longrightarrow> updateModelAvailability name flag reg = reg"
    by (simp add: updateModelAvailability_def)
  define st where "st = \<lparr>registry = applyOps ops MODEL_REGISTRY, requestLogs = logs, calls = cs\<rparr>"
  obtain g1 g2 g3 g4 g5 where g: "registry st = withFlags g1 g2 g3 g4 g5"
    using reachable_form [of ops] by (auto simp: st_def)
  have b: "registry (snd (routePrompt env st p preset uid sid)) = registry st
         \<and> (\<exists>c. map_of (registry (snd (routePrompt env st p preset uid sid))) ''gpt-oss-20b'' = Some c
                \<and> isAvailable c = Some True)
         \<and> routeRequest (registry (snd (routePrompt env st p preset uid sid))) (requestOf env p preset) = Inr d"
    if d: "routeRequest (registry st) (requestOf env p preset) = Inr d"
      and sel: "selectedModel d = ''openai/gpt-oss-20b:fireworks-ai''"
      and fail: "isl (generateResponse env ''openai/gpt-oss-20b:fireworks-ai'' p
                        (primaryOptions (runtime env) (classifiedType env p)))"
    for d
  proof -
    from fail obtain err where err: "generateResponse env ''openai/gpt-oss-20b:fireworks-ai'' p
                 (primaryOptions (runtime env) (classifiedType env p)) = Inl err"
      by (cases "generateResponse env ''openai/gpt-oss-20b:fireworks-ai'' p
                 (primaryOptions (runtime env) (classifiedType env p))") auto
    note r1 = oss_failure_keeps_registry(1) [OF g d sel err, where uid = uid and sid = sid]
    note r2 = oss_failure_keeps_registry(2) [OF g d sel err]
    have same: "registry (snd (routePrompt env st p preset uid sid)) = registry st"
      unfolding r1 handleRoutingError_registry by simp
    from r2 have "\<exists>c. map_of (registry st) ''gpt-oss-20b'' = Some c \<and> isAvailable c = Some True"
      unfolding g by (simp add: map_of_withFlags entry_avail)
    with same d show ?thesis by simp
  qed
  from a b show ?thesis unfolding st_def Let_def by blast
qed

lemma envOssDown_classified:
  "classifiedType envOssDown prompt0 = SUMMARIZE"
  "hy_confidence (classify (runtime envOssDown) (modelClassifier envOssDown) prompt0) = 0.9"
  by (simp_all add: classifiedType_def envOssDown_def prompt0_classified)

lemma prompt0_tokens: "estimateTokens prompt0 = 11"
  by (simp add: estimateTokens_def prompt0_def)

lemma envOssDown_request:
  "requestOf envOssDown prompt0 COST = \<lparr>prompt = prompt0, promptType = Some SUMMARIZE, priorityPreset = COST\<rparr>"
  by (simp add: requestOf_def envOssDown_classified)

lemma envOssDown_decision:
  "\<exists>d. routeRequest MODEL_REGISTRY (requestOf envOssDown prompt0 COST) = Inr d
      \<and> selectedModel d = ''openai/gpt-oss-20b:fireworks-ai''"
proof -
  have "getAvailableModels MODEL_REGISTRY SUMMARIZE (estimateTokens prompt0) \<noteq> []"
    by (rule fresh_candidates_nonempty) (simp add: prompt0_tokens)
  from routeRequest_total [OF this, of COST] obtain d where
    d: "routeRequest MODEL_REGISTRY \<lparr>prompt = prompt0, promptType = Some SUMMARIZE, priorityPreset = COST\<rparr> = Inr d"
    by blast
  have "selectedModel d = ''openai/gpt-oss-20b:fireworks-ai''"
    by (rule cost_summarize_selected [OF _ d]) (simp add: prompt0_tokens)
  with d show ?thesis by (simp add: envOssDown_request)
qed

lemma envOssDown_fails:
  "generateResponse envOssDown ''openai/gpt-oss-20b:fireworks-ai'' prompt0 opts
     = Inl (JsError ''Hugging Face model unavailable'')"
  by (simp add: envOssDown_def)

lemma envOssDown_options:
  "primaryOptions (runtime envOssDown) SUMMARIZE = \<lparr>maxTokens = 1500, temperature = 0.3, timeoutMs = 30000\<rparr>"
  "fallbackOptions SUMMARIZE = \<lparr>maxTokens = 1500, temperature = 0.7, timeoutMs = 30000\<rparr>"
  by (simp_all add: primaryOptions_def fallbackOptions_def getMaxOutputTokens_def
        getTemperatureForPromptType_def getRequestTimeout_def getServerEnv_def envOssDown_def serverEnv0_def)

theorem C4_witness:
  "map_of MODEL_REGISTRY ''openai/gpt-oss-20b:fireworks-ai'' = None
   \<and> updateModelAvailability ''openai/gpt-oss-20b:fireworks-ai'' False MODEL_REGISTRY = MODEL_REGISTRY
   \<and> (\<exists>d. routeRequest MODEL_REGISTRY (requestOf envOssDown prompt0 COST) = Inr d
          \<and> selectedModel d = ''openai/gpt-oss-20b:fireworks-ai''
          \<and> isl (generateResponse envOssDown ''openai/gpt-oss-20b:fireworks-ai'' prompt0
                   (primaryOptions (runtime envOssDown) (classifiedType envOssDown prompt0)))
          \<and> registry (snd (routePrompt envOssDown st0 prompt0 COST None None)) = MODEL_REGISTRY
          \<and> (\<exists>c. map_of (registry (snd (routePrompt envOssDown st0 prompt0 COST None None))) ''gpt-oss-20b'' = Some c
                 \<and> isAvailable c = Some True)
          \<and> routeRequest (registry (snd (routePrompt envOssDown st0 prompt0 COST None None)))
               (requestOf envOssDown prompt0 COST) = Inr d)"
proof -
  have none: "map_of MODEL_REGISTRY ''openai/gpt-oss-20b:fireworks-ai'' = None"
    by (simp add: MODEL_REGISTRY_flags map_of_withFlags)
  have st: "\<lparr>registry = applyOps [] MODEL_REGISTRY, requestLogs = [], calls = []\<rparr> = st0"
    by (simp add: st0_def applyOps_def)
  note inst = C4_unknown_name_leaves_registry [where reg = MODEL_REGISTRY
      and name = "''openai/gpt-oss-20b:fireworks-ai''" and flag = False and ops = "[]"
      and logs = "[]" and cs = "[]" and env = envOssDown and p = prompt0 and preset = COST
      and uid = None and sid = None, unfolded Let_def st]
  from envOssDown_decision obtain d where
    d: "routeRequest MODEL_REGISTRY (requestOf envOssDown prompt0 COST) = Inr d"
      "selectedModel d = ''openai/gpt-oss-20b:fireworks-ai''"
    by blast
  have reg0: "registry st0 = MODEL_REGISTRY" by (simp add: st0_def)
  have f: "isl (generateResponse envOssDown ''openai/gpt-oss-20b:fireworks-ai'' prompt0
                   (primaryOptions (runtime envOssDown) (classifiedType envOssDown prompt0)))"
    by (simp add: envOssDown_fails)
  from inst none have u: "updateModelAvailability ''openai/gpt-oss-20b:fireworks-ai'' False MODEL_REGISTRY = MODEL_REGISTRY"
    by blast
  from inst d f have "registry (snd (routePrompt envOssDown st0 prompt0 COST None None)) = registry st0
       \<and> (\<exists>c. map_of (registry (snd (routePrompt envOssDown st0 prompt0 COST None None))) ''gpt-oss-20b'' = Some c
               \<and> isAvailable c = Some True)
       \<and> routeRequest (registry (snd (routePrompt envOssDown st0 prompt0 COST None None)))
               (requestOf envOssDown prompt0 COST) = Inr d"
    unfolding reg0 by blast
  with none u d f show ?thesis unfolding reg0 by blast
qed

text \<open>
  Claim C3 (evaluated on the code). On a fresh service, the prompt
  \<open>Summarize the key points of machine learning\<close> under the preset \<open>COST\<close> is routed to
  \<open>openai/gpt-oss-20b:fireworks-ai\<close>. When that backend fails, the static fallback
  \<open>gpt-4o-mini\<close> is invoked once with temperature 0.7, timeout 30000 and the 1500 tokens of
  the prompt type, and its reply is returned with cost 0.00015; but the registry is left
  unchanged and \<open>gpt-oss-20b\<close> is still available: the failed model was not marked.
\<close>

theorem C3_failed_model_not_marked:
  "map_sum id modelUsed (fst (routePrompt envOssDown st0 prompt0 COST None None))
     = Inr ''gpt-4o-mini (fallback)''
   \<and> map_sum id actualCost (fst (routePrompt envOssDown st0 prompt0 COST None None)) = Inr 0.00015
   \<and> calls (snd (routePrompt envOssDown st0 prompt0 COST None None))
     = [(''openai/gpt-oss-20b:fireworks-ai'', prompt0,
          \<lparr>maxTokens = 1500, temperature = 0.3, timeoutMs = 30000\<rparr>),
        (''gpt-4o-mini'', prompt0, \<lparr>maxTokens = 1500, temperature = 0.7, timeoutMs = 30000\<rparr>)]
   \<and> registry (snd (routePrompt envOssDown st0 prompt0 COST None None)) = MODEL_REGISTRY
   \<and> map_option isAvailable (map_of MODEL_REGISTRY ''gpt-oss-20b'') = Some (Some True)"
proof -
  from envOssDown_decision obtain d where
    d: "routeRequest (registry st0) (requestOf envOssDown prompt0 COST) = Inr d"
      "selectedModel d = ''openai/gpt-oss-20b:fireworks-ai''"
    by (auto simp: st0_def)
  have reg: "registry st0 = withFlags True True True True True"
    by (simp add: st0_def MODEL_REGISTRY_flags)
  note step = oss_failure_keeps_registry(1) [OF reg d envOssDown_fails, where uid = None and sid = None]
  have fc: "getClient MODEL_REGISTRY ''gpt-4o-mini'' = Inr \<lparr>client_provider = OPENAI, client_modelName = ''gpt-4o-mini''\<rparr>"
    unfolding MODEL_REGISTRY_flags by (rule getClient_withFlags)
  have gen: "generateResponse envOssDown ''gpt-4o-mini'' prompt0 opts = Inr ''Machine learning finds patterns in data.''" for opts
    by (simp add: envOssDown_def)
  have avail: "map_option isAvailable (map_of MODEL_REGISTRY ''gpt-oss-20b'') = Some (Some True)"
    by (simp add: MODEL_REGISTRY_flags map_of_withFlags entry_avail)
  show ?thesis
    unfolding step envOssDown_classified envOssDown_options
    by (simp add: handleRoutingError_def Let_def st0_def fc gen envOssDown_options avail)
qed

lemma lastIndexOf_absent:
  "c \<notin> set (take (n + 1) s) \<Longrightarrow> lastIndexOf s c n = - 1"
  by (simp add: lastIndexOf_def)

lemma lastIndexOf_split:
  assumes "take (n + 1) s = ys @ c # zs" and "c \<notin> set zs"
  shows "lastIndexOf s c n = int (length ys)"
proof -
  have "\<And>x. x \<in> set (rev zs) \<Longrightarrow> x \<noteq> c"
    using assms(2) by auto
  then have "takeWhile (\<lambda>x. x \<noteq> c) (rev zs @ c # rev ys) = rev zs @ takeWhile (\<lambda>x. x \<noteq> c) (c # rev ys)"
    by (rule takeWhile_append2)
  then have tw: "takeWhile (\<lambda>x. x \<noteq> c) (rev (ys @ c # zs)) = rev zs"
    by simp
  have "c \<in> set (ys @ c # zs)" by simp
  then show ?thesis
    unfolding lastIndexOf_def Let_def assms(1) tw by simp
qed

lemma lastIndexOf_char:
  "(lastIndexOf s c n = - 1 \<and> (\<forall>j. j \<le> n \<and> j < length s \<longrightarrow> s ! j \<noteq> c))
   \<or> (0 \<le> lastIndexOf s c n \<and> nat (lastIndexOf s c n) \<le> n
       \<and> nat (lastIndexOf s c n) < length s \<and> s ! nat (lastIndexOf s c n) = c
       \<and> (\<forall>j. nat (lastIndexOf s c n) < j \<and> j \<le> n \<and> j < length s \<longrightarrow> s ! j \<noteq> c))"
proof (cases "c \<in> set (take (n + 1) s)")
  case False
  have "s ! j \<noteq> c" if "j \<le> n" "j < length s" for j
  proof
    assume "s ! j = c"
    with that have "take (n + 1) s ! j = c" "j < length (take (n + 1) s)" by simp_all
    then have "c \<in> set (take (n + 1) s)" by (metis nth_mem)
    with False show False by contradiction
  qed
  with False show ?thesis by (simp add: lastIndexOf_absent)
next
  case True
  then obtain ys zs where sp: "take (n + 1) s = ys @ c # zs" "c \<notin> set zs"
    using split_list_last by fastforce
  have k: "lastIndexOf s c n = int (length ys)" by (rule lastIndexOf_split [OF sp])
  have "length (take (n + 1) s) = length (ys @ c # zs)" by (simp only: sp(1))
  then have len: "min (length s) (n + 1) = length ys + Suc (length zs)" by simp
  then have b: "length ys \<le> n" "length ys < length s" by simp_all
  have at: "s ! length ys = c"
  proof -
    have "s ! length ys = take (n + 1) s ! length ys" using b by simp
    also have "\<dots> = (ys @ c # zs) ! length ys" by (simp only: sp(1))
    also have "\<dots> = c" by simp
    finally show ?thesis .
  qed
  have after: "s ! j \<noteq> c" if "length ys < j" "j \<le> n" "j < length s" for j
  proof -
    from that len have l: "j - Suc (length ys) < length zs" by simp
    have "s ! j = take (n + 1) s ! j" using that by simp
    also have "\<dots> = (ys @ c # zs) ! j" by (simp only: sp(1))
    also have "\<dots> = zs ! (j - Suc (length ys))"
      using that(1) by (simp add: nth_append nth_Cons')
    finally have "s ! j = zs ! (j - Suc (length ys))" .
    with l have "s ! j \<in> set zs" by simp
    with sp(2) show ?thesis by auto
  qed
  from k b at after show ?thesis by simp
qed

lemma truncateResponse_short: "length text \<le> 3000 \<Longrightarrow> truncateResponse text = (text, False)"
  by (simp add: truncateResponse_def)

lemma truncateResponse_long:
  assumes "3000 < length text"
  shows "truncateResponse text =
     (let cut = max (lastIndexOf text (CHR ''.'') 3000) (lastIndexOf text (CHR 0x0A) 3000)
      in if 2400 < cut then (take (nat cut + 1) text @ ''...'', True) else (text, False))"
proof -
  define a where "a = lastIndexOf text (CHR ''.'') 3000"
  define b where "b = lastIndexOf text (CHR 0x0A) 3000"
  have m: "(if a > b then a else b) = max a b" by (simp add: max_def)
  have r: "(real_of_int k > real 3000 * 0.8) = (2400 < k)" for k :: int by auto
  have n: "2400 < k \<Longrightarrow> nat (k + 1) = nat k + 1" for k :: int by simp
  show ?thesis
    using assms unfolding truncateResponse_def Let_def a_def [symmetric] b_def [symmetric] m r
    by (simp add: n)
qed

lemma longText_truncated:
  "truncateResponse longText = (replicate 2500 (CHR ''a'') @ ''....'', True)"
proof -
  have t: "take (3000 + 1) longText = replicate 2500 (CHR ''a'') @ CHR ''.'' # replicate 500 (CHR ''b'')"
    by (simp add: longText_def)
  have dot: "lastIndexOf longText (CHR ''.'') 3000 = 2500"
    using lastIndexOf_split [OF t] by simp
  have "CHR 0x0A \<notin> set (take (3000 + 1) longText)"
    unfolding t by simp
  then have nl: "lastIndexOf longText (CHR 0x0A) 3000 = - 1"
    by (rule lastIndexOf_absent)
  have len: "3000 < length longText" by (simp add: longText_def)
  have tk: "take 2501 longText = replicate 2500 (CHR ''a'') @ ''.''"
    by (simp add: longText_def)
  show ?thesis
    unfolding truncateResponse_long [OF len] dot nl Let_def
    by (simp add: tk)
qed

lemma handleRoutingError_reply:
  assumes "fst (handleRoutingError env st p preset err uid sid pt conf) = Inr r"
    and "getClient (registry st) ''gpt-4o-mini'' = Inr fc"
  shows "\<exists>content. generateResponse env (client_modelName fc) p (fallbackOptions pt) = Inr content
           \<and> last (calls (snd (handleRoutingError env st p preset err uid sid pt conf)))
               = (client_modelName fc, p, fallbackOptions pt)
           \<and> (response r, wasTruncated r) = truncateResponse content
           \<and> modelUsed r = ''gpt-4o-mini (fallback)''"
proof (cases "generateResponse env (client_modelName fc) p (fallbackOptions pt)")
  case (Inl e)
  with assms show ?thesis by (simp add: handleRoutingError_def Let_def)
next
  case (Inr content)
  with assms show ?thesis by (auto simp add: handleRoutingError_def Let_def)
qed

lemma fallback_client_reachable:
  "registry st = withFlags f1 f2 f3 f4 f5 \<Longrightarrow>
   getClient (registry st) ''gpt-4o-mini'' = Inr \<lparr>client_provider = OPENAI, client_modelName = ''gpt-4o-mini''\<rparr>"
  by (simp add: getClient_withFlags)

lemma not_fallback_name:
  assumes "routeRequest (withFlags f1 f2 f3 f4 f5) req = Inr d"
  shows "selectedModel d \<noteq> ''gpt-4o-mini (fallback)''"
  using unavailable_not_selected [OF assms]
  by (elim disjE conjE) simp_all

lemma routePrompt_reply:
  assumes reg: "registry st = withFlags f1 f2 f3 f4 f5"
    and res: "routePrompt env st p preset uid sid = (Inr r, st')"
  shows "\<exists>name opts content. last (calls st') = (name, p, opts)
           \<and> generateResponse env name p opts = Inr content
           \<and> (response r, wasTruncated r)
               = truncateResponse (if content = [] \<and> modelUsed r \<noteq> ''gpt-4o-mini (fallback)''
                                   then ''No response generated'' else content)"
proof (cases rule: routePrompt_cases [of st env p preset])
  case (route_failed err)
  note step = routePrompt_route_failed [OF route_failed, where uid = uid and sid = sid]
  from res have "fst (handleRoutingError env st p preset err uid sid (classifiedType env p)
        (hy_confidence (classify (runtime env) (modelClassifier env) p))) = Inr r"
    and s: "st' = snd (handleRoutingError env st p preset err uid sid (classifiedType env p)
        (hy_confidence (classify (runtime env) (modelClassifier env) p)))"
    unfolding step by simp_all
  from handleRoutingError_reply [OF this(1) fallback_client_reachable [OF reg]] show ?thesis
    unfolding s by auto
next
  case (client_failed d err)
  note step = routePrompt_client_failed [OF client_failed, where uid = uid and sid = sid]
  from res have "fst (handleRoutingError env st p preset err uid sid (classifiedType env p)
        (hy_confidence (classify (runtime env) (modelClassifier env) p))) = Inr r"
    and s: "st' = snd (handleRoutingError env st p preset err uid sid (classifiedType env p)
        (hy_confidence (classify (runtime env) (modelClassifier env) p)))"
    unfolding step by simp_all
  from handleRoutingError_reply [OF this(1) fallback_client_reachable [OF reg]] show ?thesis
    unfolding s by auto
next
  case (backend_failed d cl err)
  let ?st1 = "st\<lparr>calls := calls st @ [(client_modelName cl, p, primaryOptions (runtime env) (classifiedType env p))],
                 registry := markModelUnavailable (selectedModel d) (registry st)\<rparr>"
  note step = routePrompt_backend_failed [OF backend_failed, where uid = uid and sid = sid]
  have reg1: "registry ?st1 = withFlags (f1 \<and> selectedModel d \<noteq> ''claude-3-7-sonnet-20250219'')
       (f2 \<and> selectedModel d \<noteq> ''gpt-5'') (f3 \<and> selectedModel d \<noteq> ''gemini-1.5-flash'')
       (f4 \<and> selectedModel d \<noteq> ''gpt-4o-mini'') (f5 \<and> selectedModel d \<noteq> ''gpt-oss-20b'')"
    by (simp add: reg mark_withFlags)
  from res have "fst (handleRoutingError env ?st1 p preset err uid sid (classifiedType env p)
        (hy_confidence (classify (runtime env) (modelClassifier env) p))) = Inr r"
    and s: "st' = snd (handleRoutingError env ?st1 p preset err uid sid (classifiedType env p)
        (hy_confidence (classify (runtime env) (modelClassifier env) p)))"
    unfolding step by simp_all
  from handleRoutingError_reply [OF this(1) fallback_client_reachable [OF reg1]] show ?thesis
    unfolding s by auto
next
  case (primary d cl content)
  from routePrompt_primary [OF primary, where uid = uid and sid = sid] res
  have cs: "calls st' = calls st @ [(client_modelName cl, p, primaryOptions (runtime env) (classifiedType env p))]"
    and used: "modelUsed r = selectedModel d"
    and tx: "(response r, wasTruncated r)
             = truncateResponse (if content = [] then ''No response generated'' else content)"
    by auto
  from not_fallback_name [OF primary(1) [unfolded reg]] used
  have "modelUsed r \<noteq> ''gpt-4o-mini (fallback)''" by simp
  with cs tx primary(3) show ?thesis by auto
qed

lemma primary_reply:
  assumes reg: "registry st = withFlags f1 f2 f3 f4 f5"
    and cands: "getAvailableModels (registry st) (classifiedType env p) (estimateTokens p) \<noteq> []"
    and ok: "\<And>name opts. generateResponse env name p opts = Inr content"
  shows "\<exists>r d st'. routePrompt env st p preset uid sid = (Inr r, st')
           \<and> routeRequest (registry st) (requestOf env p preset) = Inr d
           \<and> routingDecision r = d \<and> modelUsed r = selectedModel d
           \<and> modelUsed r \<noteq> ''gpt-4o-mini (fallback)''
           \<and> rr_promptType r = classifiedType env p
           \<and> costSavings r = calculateCostSavings (registry st) (actualCost r) (classifiedType env p)
           \<and> (response r, wasTruncated r)
               = truncateResponse (if content = [] then ''No response generated'' else content)"
proof -
  from routeRequest_total [OF cands, of preset] obtain d where
    d: "routeRequest (registry st) (requestOf env p preset) = Inr d"
    unfolding requestOf_def by blast
  from getClient_selected [OF d [unfolded reg]] obtain prov where
    cl: "getClient (registry st) (selectedModel d) = Inr \<lparr>client_provider = prov, client_modelName = selectedModel d\<rparr>"
    unfolding reg by blast
  have gen: "generateResponse env (client_modelName \<lparr>client_provider = prov, client_modelName = selectedModel d\<rparr>) p
      (primaryOptions (runtime env) (classifiedType env p)) = Inr content"
    by (rule ok)
  from routePrompt_primary [OF d cl gen, where uid = uid and sid = sid]
    not_fallback_name [OF d [unfolded reg]] d
  show ?thesis by auto
qed

text \<open>
  Claim C7 fails in two places. A reply of length 0 from the selected backend is not
  returned verbatim: the response is \<open>No response generated\<close>. And a truncated text ends
  with three full stops, not with one ellipsis character: the reply \<open>longText\<close> (2500
  letters, a full stop at index 2500, 600 more letters) comes back as the 2501 characters up
  to the cut followed by \<open>...\<close>.
\<close>

theorem C7_empty_reply_replaced:
  "map_sum id response (fst (routePrompt envEmpty st0 ''Hello, how are you?'' BALANCED None None))
     = Inr ''No response generated''
   \<and> truncateResponse longText = (replicate 2500 (CHR ''a'') @ ''....'', True)
   \<and> length (fst (truncateResponse longText)) = 2504"
proof -
  have reg: "registry st0 = withFlags True True True True True"
    by (simp add: st0_def MODEL_REGISTRY_flags)
  have cands: "getAvailableModels (registry st0) (classifiedType envEmpty ''Hello, how are you?'')
      (estimateTokens ''Hello, how are you?'') \<noteq> []"
    unfolding st0_def by (simp add: fresh_candidates_nonempty estimateTokens_def)
  have ok: "\<And>name opts. generateResponse envEmpty name ''Hello, how are you?'' opts = Inr []"
    by (simp add: envEmpty_def)
  from primary_reply [OF reg cands ok, of BALANCED None None] obtain r st' where
    r: "routePrompt envEmpty st0 ''Hello, how are you?'' BALANCED None None = (Inr r, st')"
      "(response r, wasTruncated r) = truncateResponse ''No response generated''"
    by auto
  from r(2) have "response r = ''No response generated''"
    by (simp add: truncateResponse_short)
  with r(1) show ?thesis by (simp add: longText_truncated)
qed

text \<open>
  Claim C7, amended. The text handed to the truncation step is the backend's reply, except
  that an empty reply of the selected backend is replaced by \<open>No response generated\<close> (an
  empty reply of the fallback is kept). That text is returned unchanged, with
  \<open>wasTruncated\<close> false, when its length is at most 3000. Otherwise, with
  \<open>cut\<close> the greater of \<open>lastIndexOf('.', 3000)\<close> and \<open>lastIndexOf('\n', 3000)\<close> (each the
  greatest index up to 3000 holding the character, or -1), the result is the prefix up to
  and including position \<open>cut\<close> followed by three full stops \<open>...\<close>, with \<open>wasTruncated\<close>
  true, when \<open>cut > 2400\<close>; else the full text, unchanged.
\<close>

theorem C7_truncation_of_reply:
  "(length finalResponse \<le> 3000 \<longrightarrow> truncateResponse finalResponse = (finalResponse, False))
   \<and> (3000 < length finalResponse \<longrightarrow>
        truncateResponse finalResponse =
          (let cut = max (lastIndexOf finalResponse (CHR ''.'') 3000) (lastIndexOf finalResponse (CHR 0x0A) 3000)
           in if 2400 < cut then (take (nat cut + 1) finalResponse @ ''...'', True) else (finalResponse, False)))
   \<and> ((lastIndexOf finalResponse c 3000 = - 1 \<and> (\<forall>j. j \<le> 3000 \<and> j < length finalResponse \<longrightarrow> finalResponse ! j \<noteq> c))
      \<or> (0 \<le> lastIndexOf finalResponse c 3000 \<and> nat (lastIndexOf finalResponse c 3000) \<le> 3000
          \<and> nat (lastIndexOf finalResponse c 3000) < length finalResponse \<and> finalResponse ! nat (lastIndexOf finalResponse c 3000) = c
          \<and> (\<forall>j. nat (lastIndexOf finalResponse c 3000) < j \<and> j \<le> 3000 \<and> j < length finalResponse \<longrightarrow> finalResponse ! j \<noteq> c)))
   \<and> (\<forall>r st'. routePrompt env \<lparr>registry = applyOps ops MODEL_REGISTRY, requestLogs = logs, calls = cs\<rparr>
                  p preset uid sid = (Inr r, st')
          \<longrightarrow> (\<exists>name opts content. last (calls st') = (name, p, opts)
                 \<and> generateResponse env name p opts = Inr content
                 \<and> (response r, wasTruncated r)
                     = truncateResponse
                         (if content = [] \<and> modelUsed r \<noteq> ''gpt-4o-mini (fallback)''
                          then ''No response generated'' else content)))"
proof -
  obtain g1 g2 g3 g4 g5 where
    g: "registry \<lparr>registry = applyOps ops MODEL_REGISTRY, requestLogs = logs, calls = cs\<rparr>
          = withFlags g1 g2 g3 g4 g5"
    using reachable_form [of ops] by auto
  show ?thesis
    using truncateResponse_short [of finalResponse] truncateResponse_long [of finalResponse]
      lastIndexOf_char [of finalResponse c 3000] routePrompt_reply [OF g]
    by blast
qed

theorem C7_witness:
  "length ''Done.'' \<le> 3000
   \<and> truncateResponse ''Done.'' = (''Done.'', False)
   \<and> 3000 < length longText
   \<and> truncateResponse longText =
        (let cut = max (lastIndexOf longText (CHR ''.'') 3000) (lastIndexOf longText (CHR 0x0A) 3000)
         in if 2400 < cut then (take (nat cut + 1) longText @ ''...'', True) else (longText, False))
   \<and> (\<exists>r st'. routePrompt envEmpty st0 ''Hello, how are you?'' BALANCED None None = (Inr r, st')
          \<and> (\<exists>name opts content. last (calls st') = (name, ''Hello, how are you?'', opts)
                 \<and> generateResponse envEmpty name ''Hello, how are you?'' opts = Inr content
                 \<and> (response r, wasTruncated r)
                     = truncateResponse
                         (if content = [] \<and> modelUsed r \<noteq> ''gpt-4o-mini (fallback)''
                          then ''No response generated'' else content)))"
proof -
  have st: "\<lparr>registry = applyOps [] MODEL_REGISTRY, requestLogs = [], calls = []\<rparr> = st0"
    by (simp add: st0_def applyOps_def)
  note short = C7_truncation_of_reply [where finalResponse = "''Done.''" and c = "CHR ''.''" and ops = "[]"
      and logs = "[]" and cs = "[]" and env = envEmpty and p = "''Hello, how are you?''"
      and preset = BALANCED and uid = None and sid = None, unfolded st]
  note long = C7_truncation_of_reply [where finalResponse = longText and c = "CHR ''.''" and ops = "[]"
      and logs = "[]" and cs = "[]" and env = envEmpty and p = "''Hello, how are you?''"
      and preset = BALANCED and uid = None and sid = None, unfolded st]
  have l1: "length ''Done.'' \<le> 3000" by simp
  have l2: "3000 < length longText" by (simp add: longText_def)
  have reg: "registry st0 = withFlags True True True True True"
    by (simp add: st0_def MODEL_REGISTRY_flags)
  have cands: "getAvailableModels (registry st0) (classifiedType envEmpty ''Hello, how are you?'')
      (estimateTokens ''Hello, how are you?'') \<noteq> []"
    unfolding st0_def by (simp add: fresh_candidates_nonempty estimateTokens_def)
  have ok: "\<And>name opts. generateResponse envEmpty name ''Hello, how are you?'' opts = Inr []"
    by (simp add: envEmpty_def)
  from primary_reply [OF reg cands ok, of BALANCED None None] obtain r st' where
    r: "routePrompt envEmpty st0 ''Hello, how are you?'' BALANCED None None = (Inr r, st')"
    by auto
  have a: "truncateResponse ''Done.'' = (''Done.'', False)"
    by (rule short [THEN conjunct1, rule_format, OF l1])
  have b: "truncateResponse longText =
        (let cut = max (lastIndexOf longText (CHR ''.'') 3000) (lastIndexOf longText (CHR 0x0A) 3000)
         in if 2400 < cut then (take (nat cut + 1) longText @ ''...'', True) else (longText, False))"
    by (rule long [THEN conjunct2, THEN conjunct1, rule_format, OF l2])
  have c: "\<exists>name opts content. last (calls st') = (name, ''Hello, how are you?'', opts)
                 \<and> generateResponse envEmpty name ''Hello, how are you?'' opts = Inr content
                 \<and> (response r, wasTruncated r)
                     = truncateResponse
                         (if content = [] \<and> modelUsed r \<noteq> ''gpt-4o-mini (fallback)''
                          then ''No response generated'' else content)"
    by (rule long [THEN conjunct2, THEN conjunct2, THEN conjunct2, rule_format, OF r])
  have "\<exists>r st'. routePrompt envEmpty st0 ''Hello, how are you?'' BALANCED None None = (Inr r, st')
          \<and> (\<exists>name opts content. last (calls st') = (name, ''Hello, how are you?'', opts)
                 \<and> generateResponse envEmpty name ''Hello, how are you?'' opts = Inr content
                 \<and> (response r, wasTruncated r)
                     = truncateResponse
                         (if content = [] \<and> modelUsed r \<noteq> ''gpt-4o-mini (fallback)''
                          then ''No response generated'' else content))"
    by (rule exI [of _ r], rule exI [of _ st'], rule conjI, rule r, rule c)
  with l1 a l2 b show ?thesis by (intro conjI)
qed

lemma savings_candidates:
  "List.map_filter (\<lambda>(_, baseConfig). getModelByName (withFlags f1 f2 f3 f4 f5) (modelName baseConfig))
     (withFlags f1 f2 f3 f4 f5)
   = map computeDerivedProperties
       [entryOf ''claude-3-7-sonnet-20250219'' f1, entryOf ''gpt-5'' f2,
        entryOf ''gemini-1.5-flash'' f3, entryOf ''gpt-4o-mini'' f4]"
  by (simp add: List.map_filter_def getModelByName_def withFlags_entries entry_names)

lemma savings_withFlags:
  "calculateCostSavings (withFlags f1 f2 f3 f4 f5) a pt = max 0 (3 / 1000 - a)"
proof -
  have caps: "pt \<in> set (capabilities (computeDerivedProperties (entryOf k f)))"
    if "k \<in> {''claude-3-7-sonnet-20250219'', ''gpt-5'', ''gemini-1.5-flash'', ''gpt-4o-mini''}" for k f
    using that by (auto simp: capabilities_computeDerived entry_caps)
  show ?thesis
    unfolding calculateCostSavings_def savings_candidates
    by (simp add: caps derived_fields entry_numbers)
qed

lemma spec_maxCost_withFlags:
  "spec_maxCost (withFlags f1 f2 f3 f4 f5) pt = 3 / 1000"
  unfolding spec_maxCost_def withFlags_entries
  by (simp add: entry_caps entry_numbers)

lemma handleRoutingError_modelUsed:
  "fst (handleRoutingError env st p preset err uid sid pt conf) = Inr r \<Longrightarrow>
   modelUsed r = ''gpt-4o-mini (fallback)''"
  by (auto simp: handleRoutingError_def Let_def split: sum.splits)

lemma routePrompt_savings:
  assumes res: "routePrompt env st p preset uid sid = (Inr r, st')"
    and used: "modelUsed r \<noteq> ''gpt-4o-mini (fallback)''"
  shows "costSavings r = calculateCostSavings (registry st) (actualCost r) (rr_promptType r)"
proof (cases rule: routePrompt_cases [of st env p preset])
  case (route_failed err)
  from res have "fst (handleRoutingError env st p preset err uid sid (classifiedType env p)
        (hy_confidence (classify (runtime env) (modelClassifier env) p))) = Inr r"
    unfolding routePrompt_route_failed [OF route_failed, where uid = uid and sid = sid] by simp
  from handleRoutingError_modelUsed [OF this] used show ?thesis by contradiction
next
  case (client_failed d err)
  from res have "fst (handleRoutingError env st p preset err uid sid (classifiedType env p)
        (hy_confidence (classify (runtime env) (modelClassifier env) p))) = Inr r"
    unfolding routePrompt_client_failed [OF client_failed, where uid = uid and sid = sid] by simp
  from handleRoutingError_modelUsed [OF this] used show ?thesis by contradiction
next
  case (backend_failed d cl err)
  from res have "fst (handleRoutingError env
        (st\<lparr>calls := calls st @ [(client_modelName cl, p, primaryOptions (runtime env) (classifiedType env p))],
            registry := markModelUnavailable (selectedModel d) (registry st)\<rparr>)
        p preset err uid sid (classifiedType env p)
        (hy_confidence (classify (runtime env) (modelClassifier env) p))) = Inr r"
    unfolding routePrompt_backend_failed [OF backend_failed, where uid = uid and sid = sid] by simp
  from handleRoutingError_modelUsed [OF this] used show ?thesis by contradiction
next
  case (primary d cl content)
  from routePrompt_primary [OF primary, where uid = uid and sid = sid] res
  show ?thesis by auto
qed

lemma handleRoutingError_savings:
  "fst (handleRoutingError env st p preset err uid sid pt conf) = Inr r \<Longrightarrow> costSavings r = 0"
  by (auto simp: handleRoutingError_def Let_def split: sum.splits)

lemma routePrompt_fallback_savings:
  assumes reg: "registry st = withFlags f1 f2 f3 f4 f5"
    and res: "routePrompt env st p preset uid sid = (Inr r, st')"
    and used: "modelUsed r = ''gpt-4o-mini (fallback)''"
  shows "costSavings r = 0"
proof (cases rule: routePrompt_cases [of st env p preset])
  case (route_failed err)
  from res have "fst (handleRoutingError env st p preset err uid sid (classifiedType env p)
        (hy_confidence (classify (runtime env) (modelClassifier env) p))) = Inr r"
    unfolding routePrompt_route_failed [OF route_failed, where uid = uid and sid = sid] by simp
  then show ?thesis by (rule handleRoutingError_savings)
next
  case (client_failed d err)
  from res have "fst (handleRoutingError env st p preset err uid sid (classifiedType env p)
        (hy_confidence (classify (runtime env) (modelClassifier env) p))) = Inr r"
    unfolding routePrompt_client_failed [OF client_failed, where uid = uid and sid = sid] by simp
  then show ?thesis by (rule handleRoutingError_savings)
next
  case (backend_failed d cl err)
  from res have "fst (handleRoutingError env
        (st\<lparr>calls := calls st @ [(client_modelName cl, p, primaryOptions (runtime env) (classifiedType env p))],
            registry := markModelUnavailable (selectedModel d) (registry st)\<rparr>)
        p preset err uid sid (classifiedType env p)
        (hy_confidence (classify (runtime env) (modelClassifier env) p))) = Inr r"
    unfolding routePrompt_backend_failed [OF backend_failed, where uid = uid and sid = sid] by simp
  then show ?thesis by (rule handleRoutingError_savings)
next
  case (primary d cl content)
  from routePrompt_primary [OF primary, where uid = uid and sid = sid] res
  have "modelUsed r = selectedModel d" by auto
  with not_fallback_name [OF primary(1) [unfolded reg]] used show ?thesis by simp
qed

lemma envOssDown_fallback:
  "\<exists>r st'. routePrompt envOssDown st0 prompt0 COST None None = (Inr r, st')
       \<and> modelUsed r = ''gpt-4o-mini (fallback)''
       \<and> rr_promptType r = SUMMARIZE
       \<and> actualCost r = 0.00015
       \<and> costSavings r = 0"
proof -
  from envOssDown_decision obtain d where
    d: "routeRequest (registry st0) (requestOf envOssDown prompt0 COST) = Inr d"
      "selectedModel d = ''openai/gpt-oss-20b:fireworks-ai''"
    by (auto simp: st0_def)
  have reg: "registry st0 = withFlags True True True True True"
    by (simp add: st0_def MODEL_REGISTRY_flags)
  note step = oss_failure_keeps_registry(1) [OF reg d envOssDown_fails, where uid = None and sid = None]
  have fc: "getClient MODEL_REGISTRY ''gpt-4o-mini'' = Inr \<lparr>client_provider = OPENAI, client_modelName = ''gpt-4o-mini''\<rparr>"
    unfolding MODEL_REGISTRY_flags by (rule getClient_withFlags)
  have gen: "generateResponse envOssDown ''gpt-4o-mini'' prompt0 opts = Inr ''Machine learning finds patterns in data.''" for opts
    by (simp add: envOssDown_def)
  show ?thesis
    unfolding step envOssDown_classified envOssDown_options
    by (simp add: handleRoutingError_def Let_def st0_def fc gen envOssDown_options)
qed

text \<open>
  Claim C10 fails for a response that comes from the static fallback. On a fresh service,
  the prompt \<open>Summarize the key points of machine learning\<close> under the preset \<open>COST\<close> is
  routed to \<open>openai/gpt-oss-20b:fireworks-ai\<close>; when that backend fails, \<open>routePrompt\<close>
  succeeds through \<open>gpt-4o-mini\<close> and returns \<open>actualCost\<close> 0.00015 with \<open>costSavings\<close> 0,
  whereas \<open>max(0, maxCost - actualCost)\<close> for the prompt type \<open>SUMMARIZE\<close> is
  \<open>0.003 - 0.00015 = 0.00285\<close>.
\<close>

theorem C10_fallback_reports_no_savings:
  "map_sum id modelUsed (fst (routePrompt envOssDown st0 prompt0 COST None None))
     = Inr ''gpt-4o-mini (fallback)''
   \<and> map_sum id rr_promptType (fst (routePrompt envOssDown st0 prompt0 COST None None)) = Inr SUMMARIZE
   \<and> map_sum id actualCost (fst (routePrompt envOssDown st0 prompt0 COST None None)) = Inr 0.00015
   \<and> map_sum id costSavings (fst (routePrompt envOssDown st0 prompt0 COST None None)) = Inr 0
   \<and> spec_maxCost (registry st0) SUMMARIZE = 0.003
   \<and> max 0 (spec_maxCost (registry st0) SUMMARIZE - 0.00015) = 0.00285
   \<and> calculateCostSavings (registry st0) 0.00015 SUMMARIZE = 0.00285"
proof -
  from envOssDown_fallback obtain r st' where
    r: "routePrompt envOssDown st0 prompt0 COST None None = (Inr r, st')"
      "modelUsed r = ''gpt-4o-mini (fallback)''" "rr_promptType r = SUMMARIZE"
      "actualCost r = 0.00015" "costSavings r = 0"
    by blast
  have reg: "registry st0 = withFlags True True True True True"
    by (simp add: st0_def MODEL_REGISTRY_flags)
  have m: "spec_maxCost (registry st0) SUMMARIZE = 0.003"
    unfolding reg spec_maxCost_withFlags by simp
  have c: "calculateCostSavings (registry st0) 0.00015 SUMMARIZE = 0.00285"
    unfolding reg savings_withFlags by simp
  from r m c show ?thesis by simp
qed

text \<open>
  Claim C10, amended. In every state of the registry reached by marking and resetting,
  \<open>calculateCostSavings\<close> returns \<open>max(0, maxCost - actualCost)\<close>, where \<open>maxCost\<close> is the
  input price per 1000 tokens (\<open>priceInputPerMillion / 1000\<close>) of the most expensive model
  whose quality-prior table contains the prompt type. The \<open>costSavings\<close> of a response that
  \<open>routePrompt\<close> returns is this value, for the response's prompt type and its
  \<open>actualCost\<close>, when the response comes from the selected backend; it is 0 when the
  response comes from the static fallback (\<open>modelUsed\<close> is \<open>gpt-4o-mini (fallback)\<close>).
\<close>

theorem C10_cost_savings:
  "calculateCostSavings (applyOps ops MODEL_REGISTRY) actualCostUsd pt
     = max 0 (spec_maxCost (applyOps ops MODEL_REGISTRY) pt - actualCostUsd)
   \<and> (\<forall>r st'. routePrompt env \<lparr>registry = applyOps ops MODEL_REGISTRY, requestLogs = logs, calls = cs\<rparr>
                  p preset uid sid = (Inr r, st')
          \<longrightarrow> costSavings r
                = (if modelUsed r = ''gpt-4o-mini (fallback)'' then 0
                   else max 0 (spec_maxCost (applyOps ops MODEL_REGISTRY) (rr_promptType r) - actualCost r)))"
proof -
  obtain g1 g2 g3 g4 g5 where g: "applyOps ops MODEL_REGISTRY = withFlags g1 g2 g3 g4 g5"
    using reachable_form by blast
  have a: "calculateCostSavings (applyOps ops MODEL_REGISTRY) x t
     = max 0 (spec_maxCost (applyOps ops MODEL_REGISTRY) t - x)" for x t
    unfolding g savings_withFlags spec_maxCost_withFlags ..
  have b: "costSavings r
            = (if modelUsed r = ''gpt-4o-mini (fallback)'' then 0
               else max 0 (spec_maxCost (applyOps ops MODEL_REGISTRY) (rr_promptType r) - actualCost r))"
    if res: "routePrompt env \<lparr>registry = applyOps ops MODEL_REGISTRY, requestLogs = logs, calls = cs\<rparr>
                  p preset uid sid = (Inr r, st')" for r st'
  proof (cases "modelUsed r = ''gpt-4o-mini (fallback)''")
    case True
    have reg: "registry \<lparr>registry = applyOps ops MODEL_REGISTRY, requestLogs = logs, calls = cs\<rparr>
                 = withFlags g1 g2 g3 g4 g5"
      by (simp add: g)
    from routePrompt_fallback_savings [OF reg res True] True show ?thesis by simp
  next
    case False
    from routePrompt_savings [OF res False] False show ?thesis by (simp add: a)
  qed
  from a b show ?thesis by blast
qed

theorem C10_witness:
  "calculateCostSavings MODEL_REGISTRY 0.001 CODE = max 0 (spec_maxCost MODEL_REGISTRY CODE - 0.001)
   \<and> spec_maxCost MODEL_REGISTRY CODE = 0.003
   \<and> (\<exists>r st'. routePrompt envEmpty st0 ''Hello, how are you?'' BALANCED None None = (Inr r, st')
          \<and> modelUsed r \<noteq> ''gpt-4o-mini (fallback)''
          \<and> costSavings r = max 0 (spec_maxCost MODEL_REGISTRY (rr_promptType r) - actualCost r))
   \<and> (\<exists>r st'. routePrompt envOssDown st0 prompt0 COST None None = (Inr r, st')
          \<and> modelUsed r = ''gpt-4o-mini (fallback)''
          \<and> costSavings r = 0)"
proof -
  have st: "\<lparr>registry = MODEL_REGISTRY, requestLogs = [], calls = []\<rparr> = st0"
    by (simp add: st0_def)
  have ops: "applyOps [] MODEL_REGISTRY = MODEL_REGISTRY" by (simp add: applyOps_def)
  note inst = C10_cost_savings [where ops = "[]" and actualCostUsd = "0.001" and pt = CODE
      and logs = "[]" and cs = "[]" and env = envEmpty and p = "''Hello, how are you?''"
      and preset = BALANCED and uid = None and sid = None, unfolded ops, unfolded st]
  note inst2 = C10_cost_savings [where ops = "[]" and actualCostUsd = "0.001" and pt = CODE
      and logs = "[]" and cs = "[]" and env = envOssDown and p = prompt0
      and preset = COST and uid = None and sid = None, unfolded ops, unfolded st]
  have reg: "registry st0 = withFlags True True True True True"
    by (simp add: st0_def MODEL_REGISTRY_flags)
  have cands: "getAvailableModels (registry st0) (classifiedType envEmpty ''Hello, how are you?'')
      (estimateTokens ''Hello, how are you?'') \<noteq> []"
    unfolding st0_def by (simp add: fresh_candidates_nonempty estimateTokens_def)
  have ok: "\<And>name opts. generateResponse envEmpty name ''Hello, how are you?'' opts = Inr []"
    by (simp add: envEmpty_def)
  from primary_reply [OF reg cands ok, of BALANCED None None] obtain r st' where
    r: "routePrompt envEmpty st0 ''Hello, how are you?'' BALANCED None None = (Inr r, st')"
    and nf: "modelUsed r \<noteq> ''gpt-4o-mini (fallback)''"
    by auto
  from inst [THEN conjunct2, rule_format, OF r] nf
  have s: "costSavings r = max 0 (spec_maxCost MODEL_REGISTRY (rr_promptType r) - actualCost r)"
    by simp
  from envOssDown_fallback obtain r2 st2 where
    r2: "routePrompt envOssDown st0 prompt0 COST None None = (Inr r2, st2)"
    and fb: "modelUsed r2 = ''gpt-4o-mini (fallback)''"
    by blast
  from inst2 [THEN conjunct2, rule_format, OF r2] fb
  have s2: "costSavings r2 = 0" by simp
  have m: "spec_maxCost MODEL_REGISTRY CODE = 0.003"
    unfolding MODEL_REGISTRY_flags spec_maxCost_withFlags by simp
  have e: "\<exists>r st'. routePrompt envEmpty st0 ''Hello, how are you?'' BALANCED None None = (Inr r, st')
          \<and> modelUsed r \<noteq> ''gpt-4o-mini (fallback)''
          \<and> costSavings r = max 0 (spec_maxCost MODEL_REGISTRY (rr_promptType r) - actualCost r)"
    using r nf s by (intro exI [of _ r] exI [of _ st']) simp
  have e2: "\<exists>r st'. routePrompt envOssDown st0 prompt0 COST None None = (Inr r, st')
          \<and> modelUsed r = ''gpt-4o-mini (fallback)''
          \<and> costSavings r = 0"
    using r2 fb s2 by (intro exI [of _ r2] exI [of _ st2]) simp
  from inst [THEN conjunct1] m e e2 show ?thesis by (intro conjI)
qed

lemma promptCode_lower: "toLowerCase promptCode = ''write code function class algorithm''"
  by (simp add: promptCode_def toLowerCase_def toLowerChar_def)

lemma promptCode_matched:
  "matchedFor ''write code function class algorithm'' CODE = [''write'', ''code'', ''function'', ''class'', ''algorithm'']"
  "matchedFor ''write code function class algorithm'' SUMMARIZE = []"
  "matchedFor ''write code function class algorithm'' QA = []"
  "matchedFor ''write code function class algorithm'' CREATIVE = [''write'']"
  "matchedFor ''write code function class algorithm'' MATH_REASONING = []"
  by (simp_all add: matchedFor_plain)

lemma promptCode_scores:
  "heuristicScores promptCode =
     [\<lparr>se_promptType = CODE, se_score = 1, matchedKeywords = [''write'', ''code'', ''function'', ''class'', ''algorithm'']\<rparr>,
      \<lparr>se_promptType = SUMMARIZE, se_score = 0, matchedKeywords = []\<rparr>,
      \<lparr>se_promptType = QA, se_score = 0, matchedKeywords = []\<rparr>,
      \<lparr>se_promptType = CREATIVE, se_score = 17/70, matchedKeywords = [''write'']\<rparr>,
      \<lparr>se_promptType = MATH_REASONING, se_score = 0, matchedKeywords = []\<rparr>,
      \<lparr>se_promptType = UNKNOWN, se_score = 0, matchedKeywords = []\<rparr>]"
  by (simp add: heuristicScores_def promptCode_lower promptCode_matched promptTypeOrder_def
        calculateKeywordScore_def Let_def)

lemma promptCode_heuristic:
  "h_promptType (heuristicClassify promptCode) = CODE"
  "h_confidence (heuristicClassify promptCode) = 0.9"
  by (simp_all add: heuristicClassify_def promptCode_scores findBestMatch_def heuristicConfidence_def Let_def)

text \<open>
  Claim C9 fails when the configured threshold cannot be read. On a server whose
  environment does not validate, the prompt \<open>write code function class algorithm\<close> has
  heuristic confidence 0.9, yet the result is not the heuristic result with
  \<open>heuristic_only\<close>: the failure is caught, \<open>finalMethod\<close> is \<open>heuristic_fallback\<close> and the
  confidence is halved to 0.45.
\<close>

theorem C9_threshold_unreadable:
  "h_confidence (heuristicClassify promptCode) = 0.9
   \<and> finalMethod (classify (Server None) (modelClassifier envNoConfig) promptCode) = ''heuristic_fallback''
   \<and> hy_confidence (classify (Server None) (modelClassifier envNoConfig) promptCode) = 0.45"
  by (simp add: classify_def getConfidenceThreshold_def getServerEnv_def heuristicFallback_def
        Let_def promptCode_heuristic)

text \<open>
  Claim C9, amended. Provided the configured threshold is read without failure: whenever
  the heuristic confidence is at least 0.7 the heuristic result is returned unchanged with
  \<open>finalMethod\<close> \<open>heuristic_only\<close>. If reading the threshold fails, or the confidence is
  below 0.7 and the model classifier fails, the result is the heuristic category with
  confidence \<open>max(0.1, 0.5 * heuristic confidence)\<close> and \<open>finalMethod\<close>
  \<open>heuristic_fallback\<close>. When both classifiers ran: if they agree on the category, that
  category with the higher of the two confidences; if they disagree, the model's category
  and confidence iff \<open>modelConfidence - heuristicConfidence > 0\<close>, otherwise the
  heuristic's (so the case \<open>> 0.2\<close> changes nothing in the result).
\<close>

theorem C9_hybrid_classify:
  "(let h = heuristicClassify p; r = classify rt mc p in
      (isl (getConfidenceThreshold rt) \<or> (h_confidence h < 0.7 \<and> isl (mc p))
         \<longrightarrow> hy_promptType r = h_promptType h
           \<and> hy_confidence r = max 0.1 (h_confidence h * 0.5)
           \<and> finalMethod r = ''heuristic_fallback'')
    \<and> (\<not> isl (getConfidenceThreshold rt) \<and> h_confidence h \<ge> 0.7
         \<longrightarrow> hy_promptType r = h_promptType h \<and> hy_confidence r = h_confidence h
           \<and> heuristicResult r = h \<and> modelResult r = None
           \<and> finalMethod r = ''heuristic_only'')
    \<and> (\<forall>m. \<not> isl (getConfidenceThreshold rt) \<and> h_confidence h < 0.7 \<and> mc p = Inr m
         \<longrightarrow> (h_promptType h = m_promptType m
               \<longrightarrow> hy_promptType r = m_promptType m
                 \<and> hy_confidence r = max (h_confidence h) (m_confidence m))
           \<and> (h_promptType h \<noteq> m_promptType m \<and> m_confidence m - h_confidence h > 0
               \<longrightarrow> hy_promptType r = m_promptType m \<and> hy_confidence r = m_confidence m
                 \<and> hy_method r = ''model'')
           \<and> (h_promptType h \<noteq> m_promptType m \<and> \<not> m_confidence m - h_confidence h > 0
               \<longrightarrow> hy_promptType r = h_promptType h \<and> hy_confidence r = h_confidence h
                 \<and> hy_method r = ''heuristic'')))"
proof -
  define h where "h = heuristicClassify p"
  define r where "r = classify rt mc p"
  have a: "hy_promptType r = h_promptType h \<and> hy_confidence r = max 0.1 (h_confidence h * 0.5)
           \<and> finalMethod r = ''heuristic_fallback''"
    if "isl (getConfidenceThreshold rt) \<or> (h_confidence h < 0.7 \<and> isl (mc p))"
    using that unfolding r_def h_def
    by (auto simp: classify_def heuristicFallback_def Let_def shouldUseHeuristic_def
          split: sum.splits)
  have b: "hy_promptType r = h_promptType h \<and> hy_confidence r = h_confidence h
           \<and> heuristicResult r = h \<and> modelResult r = None
           \<and> finalMethod r = ''heuristic_only''"
    if "\<not> isl (getConfidenceThreshold rt) \<and> h_confidence h \<ge> 0.7"
    using that unfolding r_def h_def
    by (auto simp: classify_def Let_def shouldUseHeuristic_def split: sum.splits)
  have c: "(h_promptType h = m_promptType m
               \<longrightarrow> hy_promptType r = m_promptType m
                 \<and> hy_confidence r = max (h_confidence h) (m_confidence m))
           \<and> (h_promptType h \<noteq> m_promptType m \<and> m_confidence m - h_confidence h > 0
               \<longrightarrow> hy_promptType r = m_promptType m \<and> hy_confidence r = m_confidence m
                 \<and> hy_method r = ''model'')
           \<and> (h_promptType h \<noteq> m_promptType m \<and> \<not> m_confidence m - h_confidence h > 0
               \<longrightarrow> hy_promptType r = h_promptType h \<and> hy_confidence r = h_confidence h
                 \<and> hy_method r = ''heuristic'')"
    if "\<not> isl (getConfidenceThreshold rt) \<and> h_confidence h < 0.7 \<and> mc p = Inr m" for m
    using that unfolding r_def h_def
    by (auto simp: classify_def Let_def shouldUseHeuristic_def combineResults_def split: sum.splits)
  from a b c show ?thesis unfolding Let_def h_def [symmetric] r_def [symmetric] by blast
qed

lemma maxOf_Max: "xs \<noteq> [] \<Longrightarrow> maxOf xs = Max (set xs)"
proof (cases xs)
  case Nil
  then show "xs \<noteq> [] \<Longrightarrow> ?thesis" by simp
next
  case (Cons a list)
  then show ?thesis using Max.set_eq_fold [of a list] by simp
qed

lemma findBestMatch_fold: "findBestMatch scores =
    fold bestStep scores \<lparr>se_promptType = UNKNOWN, se_score = 0, matchedKeywords = []\<rparr>"
proof -
  have "bestStep = (\<lambda>e bestMatch.
             if se_promptType e = UNKNOWN then bestMatch
             else if se_score e > se_score bestMatch then e else bestMatch)"
    by (intro ext) (simp add: bestStep_def)
  then show ?thesis by (simp add: findBestMatch_def)
qed

lemma fold_best_ge: "se_score acc \<le> se_score (fold bestStep es acc)"
proof (induction es arbitrary: acc)
  case Nil
  show ?case by simp
next
  case (Cons e es)
  have "se_score acc \<le> se_score (bestStep e acc)" by (simp add: bestStep_def)
  also have "\<dots> \<le> se_score (fold bestStep es (bestStep e acc))" by (rule Cons.IH)
  finally show ?case by simp
qed

lemma fold_best_upper:
  "e \<in> set es \<Longrightarrow> se_promptType e \<noteq> UNKNOWN \<Longrightarrow> se_score e \<le> se_score (fold bestStep es acc)"
proof (induction es arbitrary: acc)
  case Nil
  then show ?case by simp
next
  case (Cons x es)
  show ?case
  proof (cases "e = x")
    case True
    with Cons.prems have "se_score e \<le> se_score (bestStep x acc)" by (simp add: bestStep_def)
    also have "\<dots> \<le> se_score (fold bestStep es (bestStep x acc))" by (rule fold_best_ge)
    finally show ?thesis by simp
  next
    case False
    with Cons.prems have "e \<in> set es" by simp
    from Cons.IH [OF this Cons.prems(2)] show ?thesis by simp
  qed
qed

lemma fold_best_member:
  "fold bestStep es acc = acc
   \<or> (fold bestStep es acc \<in> set es \<and> se_promptType (fold bestStep es acc) \<noteq> UNKNOWN
      \<and> se_score acc < se_score (fold bestStep es acc))"
proof (induction es arbitrary: acc)
  case Nil
  show ?case by simp
next
  case (Cons x es)
  let ?a = "bestStep x acc"
  let ?r = "fold bestStep es ?a"
  have r: "fold bestStep (x # es) acc = ?r" by simp
  have le: "se_score acc \<le> se_score ?a" by (simp add: bestStep_def)
  have a: "?a = acc \<or> (?a = x \<and> se_promptType x \<noteq> UNKNOWN \<and> se_score acc < se_score x)"
    by (simp add: bestStep_def)
  from Cons.IH [of ?a] consider "?r = ?a"
    | "?r \<in> set es" "se_promptType ?r \<noteq> UNKNOWN" "se_score ?a < se_score ?r"
    by blast
  then show ?case
  proof cases
    case 1
    with a show ?thesis unfolding r by auto
  next
    case 2
    with le have "se_score acc < se_score ?r" by simp
    with 2 show ?thesis unfolding r by simp
  qed
qed

lemma length_filter_mem:
  "length (filter (\<lambda>x. x \<in> set xs) (filter Q xs)) = length (filter Q xs)"
proof -
  have "\<forall>x\<in>set (filter Q xs). x \<in> set xs" by simp
  then have "filter (\<lambda>x. x \<in> set xs) (filter Q xs) = filter Q xs"
    by (rule filter_True)
  then show ?thesis by (rule arg_cong)
qed

lemma calculateKeywordScore_spec:
  "calculateKeywordScore (matchedFor (toLowerCase p) pt) (keywordsOf pt) = spec_rawScore p pt"
  unfolding calculateKeywordScore_def matchedFor_def spec_rawScore_def Let_def length_filter_mem
  by simp

lemma spec_rawScore_nonneg: "0 \<le> spec_rawScore p pt"
  by (simp add: spec_rawScore_def Let_def)

lemma spec_rawScore_UNKNOWN: "spec_rawScore p UNKNOWN = 0"
  by (simp add: spec_rawScore_def)

lemma heuristicScores_map:
  "heuristicScores p =
     map (\<lambda>pt. \<lparr>se_promptType = pt, se_score = spec_rawScore p pt,
                 matchedKeywords = (if pt = UNKNOWN then [] else matchedFor (toLowerCase p) pt)\<rparr>)
       promptTypeOrder"
  unfolding heuristicScores_def Let_def
  by (rule map_cong) (simp_all add: calculateKeywordScore_spec spec_rawScore_UNKNOWN)

lemma heuristicScores_score:
  "e \<in> set (heuristicScores p) \<Longrightarrow> se_score e = spec_rawScore p (se_promptType e)"
  by (auto simp: heuristicScores_map)

lemma heuristicScores_types:
  "e \<in> set (heuristicScores p) \<Longrightarrow> se_promptType e \<noteq> UNKNOWN \<Longrightarrow> se_promptType e \<in> set categories"
  by (auto simp: heuristicScores_map promptTypeOrder_def categories_def)

lemma heuristicScores_all:
  "c \<in> set categories \<Longrightarrow> \<exists>e\<in>set (heuristicScores p). se_promptType e = c \<and> c \<noteq> UNKNOWN"
  by (auto simp: heuristicScores_map promptTypeOrder_def categories_def)

lemma heuristicScores_others:
  "map se_score (filter (\<lambda>e. se_promptType e \<noteq> t \<and> se_promptType e \<noteq> UNKNOWN) (heuristicScores p))
     = map (spec_rawScore p) (filter (\<lambda>c. c \<noteq> t) categories)"
  by (simp add: heuristicScores_map filter_map comp_def promptTypeOrder_def categories_def)

lemma runner_up:
  "maxOf (map (spec_rawScore p) (filter (\<lambda>c. c \<noteq> t) categories) @ [0])
     = Max (spec_rawScore p ` (set categories - {t}))"
proof -
  let ?S = "spec_rawScore p ` (set categories - {t})"
  have s: "{x \<in> set categories. x \<noteq> t} = set categories - {t}" by auto
  have ne: "?S \<noteq> {}" by (cases "t = CODE") (auto simp: categories_def)
  have fin: "finite ?S" by simp
  have "maxOf (map (spec_rawScore p) (filter (\<lambda>c. c \<noteq> t) categories) @ [0])
          = Max (set (map (spec_rawScore p) (filter (\<lambda>c. c \<noteq> t) categories) @ [0]))"
    by (rule maxOf_Max) simp
  also have "\<dots> = Max (insert 0 ?S)" by (simp add: s)
  also have "\<dots> = max 0 (Max ?S)" using fin ne by (rule Max_insert)
  also have "\<dots> = Max ?S"
  proof -
    from ne obtain x where x: "x \<in> ?S" by blast
    then have "0 \<le> x" by (auto simp: spec_rawScore_nonneg)
    also have "x \<le> Max ?S" using fin x by (rule Max_ge)
    finally show ?thesis by simp
  qed
  finally show ?thesis .
qed

lemma heuristicConfidence_zero: "se_score b = 0 \<Longrightarrow> heuristicConfidence b scores = 0.1"
  by (simp add: heuristicConfidence_def)

lemma heuristicConfidence_spec:
  assumes "se_score b \<noteq> 0"
  shows "heuristicConfidence b (heuristicScores p) =
     (let gap = se_score b - Max (spec_rawScore p ` (set categories - {se_promptType b}))
      in min 0.9 (se_score b + (if gap > 0.3 then 0.2 else 0) + (if gap > 0.5 then 0.1 else 0)))"
  using assms unfolding heuristicConfidence_def Let_def heuristicScores_others runner_up
  by simp

lemma heuristicConfidence_le: "heuristicConfidence b scores \<le> 0.9"
proof (cases "se_score b = 0")
  case True
  then show ?thesis by (simp add: heuristicConfidence_zero)
next
  case False
  have "min 0.9 x \<le> (0.9 :: real)" for x by (rule min.cobounded1)
  with False show ?thesis unfolding heuristicConfidence_def Let_def
    by (simp only: if_False)
qed

lemma heuristicClassify_fields:
  "h_promptType (heuristicClassify p) = se_promptType (findBestMatch (heuristicScores p))"
  "h_confidence (heuristicClassify p) =
     heuristicConfidence (findBestMatch (heuristicScores p)) (heuristicScores p)"
  by (simp_all add: heuristicClassify_def Let_def)

lemma best_all_zero:
  assumes "\<forall>c\<in>set categories. spec_rawScore p c = 0"
  shows "findBestMatch (heuristicScores p) =
           \<lparr>se_promptType = UNKNOWN, se_score = 0, matchedKeywords = []\<rparr>"
proof -
  let ?init = "\<lparr>se_promptType = UNKNOWN, se_score = 0, matchedKeywords = []\<rparr>"
  let ?b = "fold bestStep (heuristicScores p) ?init"
  from fold_best_member [of "heuristicScores p" ?init]
  have "?b = ?init"
  proof
    assume "?b = ?init" then show ?thesis .
  next
    assume m: "?b \<in> set (heuristicScores p) \<and> se_promptType ?b \<noteq> UNKNOWN
               \<and> se_score ?init < se_score ?b"
    then have m1: "?b \<in> set (heuristicScores p)" and m2: "se_promptType ?b \<noteq> UNKNOWN"
      and m3: "0 < se_score ?b" by simp_all
    from m1 m2 have "se_promptType ?b \<in> set categories" by (rule heuristicScores_types)
    with assms have "spec_rawScore p (se_promptType ?b) = 0" by (rule bspec)
    moreover from m1 have "se_score ?b = spec_rawScore p (se_promptType ?b)"
      by (rule heuristicScores_score)
    ultimately have "se_score ?b = 0" by simp
    with m3 show ?thesis by simp
  qed
  then show ?thesis by (simp add: findBestMatch_fold)
qed

lemma best_some_nonzero:
  assumes "c0 \<in> set categories" "spec_rawScore p c0 \<noteq> 0"
  shows "se_promptType (findBestMatch (heuristicScores p)) \<in> set categories"
    and "se_score (findBestMatch (heuristicScores p))
           = spec_rawScore p (se_promptType (findBestMatch (heuristicScores p)))"
    and "se_score (findBestMatch (heuristicScores p)) \<noteq> 0"
    and "\<forall>c\<in>set categories. spec_rawScore p c
           \<le> spec_rawScore p (se_promptType (findBestMatch (heuristicScores p)))"
proof -
  let ?init = "\<lparr>se_promptType = UNKNOWN, se_score = 0, matchedKeywords = []\<rparr>"
  let ?b = "fold bestStep (heuristicScores p) ?init"
  have b: "findBestMatch (heuristicScores p) = ?b" by (rule findBestMatch_fold)
  have up: "spec_rawScore p c \<le> se_score ?b" if "c \<in> set categories" for c
  proof -
    from heuristicScores_all [OF that, of p] obtain e where
      e: "e \<in> set (heuristicScores p)" "se_promptType e = c" "c \<noteq> UNKNOWN" by blast
    then have "se_promptType e \<noteq> UNKNOWN" by simp
    from fold_best_upper [OF e(1) this, of ?init] have "se_score e \<le> se_score ?b" .
    moreover from e have "se_score e = spec_rawScore p c" by (simp add: heuristicScores_score)
    ultimately show ?thesis by simp
  qed
  from assms(2) spec_rawScore_nonneg [of p c0] have "0 < spec_rawScore p c0" by simp
  also have "\<dots> \<le> se_score ?b" using assms(1) by (rule up)
  finally have pos: "0 < se_score ?b" .
  then have "?b \<noteq> ?init" by auto
  with fold_best_member [of "heuristicScores p" ?init]
  have m: "?b \<in> set (heuristicScores p)" "se_promptType ?b \<noteq> UNKNOWN" by simp_all
  from m have t: "se_promptType ?b \<in> set categories" by (rule heuristicScores_types)
  from m(1) have s: "se_score ?b = spec_rawScore p (se_promptType ?b)"
    by (rule heuristicScores_score)
  show "se_promptType (findBestMatch (heuristicScores p)) \<in> set categories"
    unfolding b by (rule t)
  show "se_score (findBestMatch (heuristicScores p))
           = spec_rawScore p (se_promptType (findBestMatch (heuristicScores p)))"
    unfolding b by (rule s)
  show "se_score (findBestMatch (heuristicScores p)) \<noteq> 0"
    unfolding b using pos by simp
  show "\<forall>c\<in>set categories. spec_rawScore p c
           \<le> spec_rawScore p (se_promptType (findBestMatch (heuristicScores p)))"
    unfolding b using up s by simp
qed

text \<open>
  Claim C8. For every prompt the heuristic classifier returns a category of the
  enumeration. If the raw score of every category other than \<open>UNKNOWN\<close> is 0, it returns
  \<open>UNKNOWN\<close> with confidence 0.1. Otherwise it returns a category other than \<open>UNKNOWN\<close>
  whose raw score \<open>min(1, matched / total + 0.1 * matched)\<close> is the highest, and the
  confidence is \<open>min(0.9, rawScore + (0.2 if gap > 0.3) + (a further 0.1 if gap > 0.5))\<close>, where
  \<open>gap\<close> is the lead of that raw score over the highest raw score of the other categories
  except \<open>UNKNOWN\<close>. The confidence never exceeds 0.9. Scores are real numbers here.
\<close>

theorem C8_heuristic_classifier:
  "(let r = heuristicClassify p;
        best = h_promptType r;
        raw = spec_rawScore p best;
        gap = raw - Max (spec_rawScore p ` (set categories - {best}))
    in (if \<forall>c\<in>set categories. spec_rawScore p c = 0
        then best = UNKNOWN \<and> h_confidence r = 0.1
        else best \<in> set categories
           \<and> (\<forall>c\<in>set categories. spec_rawScore p c \<le> raw)
           \<and> h_confidence r =
               min 0.9 (raw + (if gap > 0.3 then 0.2 else 0) + (if gap > 0.5 then 0.1 else 0)))
       \<and> h_confidence r \<le> 0.9)"
proof (cases "\<forall>c\<in>set categories. spec_rawScore p c = 0")
  case True
  from best_all_zero [OF True] have
    "se_promptType (findBestMatch (heuristicScores p)) = UNKNOWN"
    "se_score (findBestMatch (heuristicScores p)) = 0" by simp_all
  with True show ?thesis
    by (simp add: Let_def heuristicClassify_fields heuristicConfidence_zero)
next
  case False
  then obtain c0 where c0: "c0 \<in> set categories" "spec_rawScore p c0 \<noteq> 0" by blast
  note best = best_some_nonzero [OF c0]
  have conf: "h_confidence (heuristicClassify p) =
     (let gap = spec_rawScore p (h_promptType (heuristicClassify p))
                - Max (spec_rawScore p ` (set categories - {h_promptType (heuristicClassify p)}))
      in min 0.9 (spec_rawScore p (h_promptType (heuristicClassify p))
                  + (if gap > 0.3 then 0.2 else 0) + (if gap > 0.5 then 0.1 else 0)))"
    unfolding heuristicClassify_fields heuristicConfidence_spec [OF best(3)] best(2) [symmetric]
    by (rule refl)
  have le: "h_confidence (heuristicClassify p) \<le> 0.9"
    unfolding heuristicClassify_fields by (rule heuristicConfidence_le)
  have t: "h_promptType (heuristicClassify p) \<in> set categories"
    unfolding heuristicClassify_fields by (rule best(1))
  have u: "\<forall>c\<in>set categories. spec_rawScore p c \<le> spec_rawScore p (h_promptType (heuristicClassify p))"
    unfolding heuristicClassify_fields by (rule best(4))
  from False t u le conf show ?thesis
    unfolding Let_def by (simp only: if_False simp_thms)
qed

lemma prompt0_raw:
  "spec_rawScore prompt0 CODE = 0"
  "spec_rawScore prompt0 SUMMARIZE = 8/15"
  "spec_rawScore prompt0 QA = 23/130"
  "spec_rawScore prompt0 CREATIVE = 0"
  "spec_rawScore prompt0 MATH_REASONING = 22/85"
  unfolding calculateKeywordScore_spec [symmetric] prompt0_lower prompt0_matched
  by (simp_all add: calculateKeywordScore_def)

lemma empty_raw: "spec_rawScore [] c = 0"
  by (cases c) (simp_all add: spec_rawScore_def toLowerCase_def toLowerChar_def)

theorem C8_witness:
  "spec_rawScore prompt0 SUMMARIZE = 8/15
   \<and> h_promptType (heuristicClassify prompt0) = SUMMARIZE
   \<and> h_confidence (heuristicClassify prompt0) = 8/15
   \<and> h_promptType (heuristicClassify []) = UNKNOWN
   \<and> h_confidence (heuristicClassify []) = 0.1"
proof -
  have z: "\<forall>c\<in>set categories. spec_rawScore [] c = 0" by (simp add: empty_raw)
  have nz: "\<not> (\<forall>c\<in>set categories. spec_rawScore prompt0 c = 0)"
    by (simp add: categories_def prompt0_raw)
  note e = C8_heuristic_classifier [of "[]", unfolded Let_def, THEN conjunct1, unfolded if_P [OF z]]
  note s = C8_heuristic_classifier [of prompt0, unfolded Let_def, THEN conjunct1, unfolded if_not_P [OF nz]]
  have best: "h_promptType (heuristicClassify prompt0) = SUMMARIZE"
  proof -
    from s have m: "h_promptType (heuristicClassify prompt0) \<in> set categories"
      and u: "\<forall>c\<in>set categories. spec_rawScore prompt0 c
                 \<le> spec_rawScore prompt0 (h_promptType (heuristicClassify prompt0))"
      by simp_all
    have "SUMMARIZE \<in> set categories" by (simp add: categories_def)
    with u have "spec_rawScore prompt0 SUMMARIZE
                 \<le> spec_rawScore prompt0 (h_promptType (heuristicClassify prompt0))"
      by (rule bspec)
    then have g: "8/15 \<le> spec_rawScore prompt0 (h_promptType (heuristicClassify prompt0))"
      by (simp add: prompt0_raw)
    from m have "h_promptType (heuristicClassify prompt0) = CODE
       \<or> h_promptType (heuristicClassify prompt0) = SUMMARIZE
       \<or> h_promptType (heuristicClassify prompt0) = QA
       \<or> h_promptType (heuristicClassify prompt0) = CREATIVE
       \<or> h_promptType (heuristicClassify prompt0) = MATH_REASONING"
      by (simp add: categories_def)
    then show ?thesis using g by (elim disjE) (simp_all add: prompt0_raw)
  qed
  have others: "set categories - {SUMMARIZE} = {CODE, QA, CREATIVE, MATH_REASONING}"
    by (auto simp: categories_def)
  from s have "h_confidence (heuristicClassify prompt0) =
      min 0.9 (spec_rawScore prompt0 (h_promptType (heuristicClassify prompt0))
        + (if spec_rawScore prompt0 (h_promptType (heuristicClassify prompt0))
               - Max (spec_rawScore prompt0 ` (set categories - {h_promptType (heuristicClassify prompt0)})) > 0.3
           then 0.2 else 0)
        + (if spec_rawScore prompt0 (h_promptType (heuristicClassify prompt0))
               - Max (spec_rawScore prompt0 ` (set categories - {h_promptType (heuristicClassify prompt0)})) > 0.5
           then 0.1 else 0))"
    by simp
  then have conf: "h_confidence (heuristicClassify prompt0) = 8/15"
    unfolding best others by (simp add: prompt0_raw)
  from e best conf show ?thesis by (simp add: prompt0_raw)
qed

lemma threshold_read: "\<not> isl (getConfidenceThreshold (Server (Some serverEnv0)))"
  by (simp add: getConfidenceThreshold_def getServerEnv_def)

theorem C9_witness:
  "finalMethod (classify (Server (Some serverEnv0)) (modelClassifier envDown) promptCode) = ''heuristic_only''
   \<and> hy_confidence (classify (Server (Some serverEnv0)) (modelClassifier envDown) promptCode) = 0.9
   \<and> finalMethod (classify (Server (Some serverEnv0)) (modelClassifier envDown) prompt0) = ''heuristic_fallback''
   \<and> hy_confidence (classify (Server (Some serverEnv0)) (modelClassifier envDown) prompt0) = 4/15
   \<and> hy_promptType (classify (Server (Some serverEnv0)) (modelClassifier envOssDown) prompt0) = SUMMARIZE
   \<and> hy_confidence (classify (Server (Some serverEnv0)) (modelClassifier envOssDown) prompt0) = 0.9
   \<and> hy_promptType (classify (Server (Some serverEnv0)) (modelClassifier envEmpty) prompt0) = QA
   \<and> hy_method (classify (Server (Some serverEnv0)) (modelClassifier envEmpty) prompt0) = ''model''
   \<and> hy_promptType (classify (Server (Some serverEnv0))
         (\<lambda>p. Inr \<lparr>m_promptType = QA, m_confidence = 0.5\<rparr>) prompt0) = SUMMARIZE
   \<and> hy_method (classify (Server (Some serverEnv0))
         (\<lambda>p. Inr \<lparr>m_promptType = QA, m_confidence = 0.5\<rparr>) prompt0) = ''heuristic''"
proof -
  let ?rt = "Server (Some serverEnv0)"
  let ?low = "\<lambda>p :: string. (Inr \<lparr>m_promptType = QA, m_confidence = 0.5\<rparr> :: Thrown + ModelClassificationResult)"
  note only = C9_hybrid_classify [where rt = ?rt and mc = "modelClassifier envDown" and p = promptCode,
      unfolded Let_def, THEN conjunct2, THEN conjunct1, rule_format]
  note fallback = C9_hybrid_classify [where rt = ?rt and mc = "modelClassifier envDown" and p = prompt0,
      unfolded Let_def, THEN conjunct1, rule_format]
  note agree = C9_hybrid_classify [where rt = ?rt and mc = "modelClassifier envOssDown" and p = prompt0,
      unfolded Let_def, THEN conjunct2, THEN conjunct2, rule_format,
      where m = "\<lparr>m_promptType = SUMMARIZE, m_confidence = 0.9\<rparr>"]
  note model = C9_hybrid_classify [where rt = ?rt and mc = "modelClassifier envEmpty" and p = prompt0,
      unfolded Let_def, THEN conjunct2, THEN conjunct2, rule_format,
      where m = "\<lparr>m_promptType = QA, m_confidence = 0.9\<rparr>"]
  note heur = C9_hybrid_classify [where rt = ?rt and mc = ?low and p = prompt0,
      unfolded Let_def, THEN conjunct2, THEN conjunct2, rule_format,
      where m = "\<lparr>m_promptType = QA, m_confidence = 0.5\<rparr>"]
  have h1: "\<not> isl (getConfidenceThreshold ?rt) \<and> 0.7 \<le> h_confidence (heuristicClassify promptCode)"
    by (simp add: threshold_read promptCode_heuristic)
  have h2: "isl (getConfidenceThreshold ?rt)
      \<or> (h_confidence (heuristicClassify prompt0) < 0.7 \<and> isl (modelClassifier envDown prompt0))"
    by (simp add: prompt0_heuristic envDown_def)
  have h3: "\<not> isl (getConfidenceThreshold ?rt) \<and> h_confidence (heuristicClassify prompt0) < 0.7
      \<and> modelClassifier envOssDown prompt0 = Inr \<lparr>m_promptType = SUMMARIZE, m_confidence = 0.9\<rparr>"
    by (simp add: threshold_read prompt0_heuristic envOssDown_def)
  have h4: "\<not> isl (getConfidenceThreshold ?rt) \<and> h_confidence (heuristicClassify prompt0) < 0.7
      \<and> modelClassifier envEmpty prompt0 = Inr \<lparr>m_promptType = QA, m_confidence = 0.9\<rparr>"
    by (simp add: threshold_read prompt0_heuristic envEmpty_def)
  have h5: "\<not> isl (getConfidenceThreshold ?rt) \<and> h_confidence (heuristicClassify prompt0) < 0.7
      \<and> ?low prompt0 = Inr \<lparr>m_promptType = QA, m_confidence = 0.5\<rparr>"
    by (simp add: threshold_read prompt0_heuristic)
  from only [OF h1] have a: "finalMethod (classify ?rt (modelClassifier envDown) promptCode) = ''heuristic_only''"
    "hy_confidence (classify ?rt (modelClassifier envDown) promptCode) = 0.9"
    by (simp_all add: promptCode_heuristic)
  from fallback [OF h2] have b: "finalMethod (classify ?rt (modelClassifier envDown) prompt0) = ''heuristic_fallback''"
    "hy_confidence (classify ?rt (modelClassifier envDown) prompt0) = 4/15"
    by (simp_all add: prompt0_heuristic)
  from agree [OF h3] have c: "hy_promptType (classify ?rt (modelClassifier envOssDown) prompt0) = SUMMARIZE"
    "hy_confidence (classify ?rt (modelClassifier envOssDown) prompt0) = 0.9"
    by (simp_all add: prompt0_heuristic)
  from model [OF h4] have d: "hy_promptType (classify ?rt (modelClassifier envEmpty) prompt0) = QA"
    "hy_method (classify ?rt (modelClassifier envEmpty) prompt0) = ''model''"
    by (simp_all add: prompt0_heuristic)
  from heur [OF h5] have e: "hy_promptType (classify ?rt ?low prompt0) = SUMMARIZE"
    "hy_method (classify ?rt ?low prompt0) = ''heuristic''"
    by (simp_all add: prompt0_heuristic)
  from a b c d e show ?thesis by simp
qed

end
